theory Spec2Isabelle
  imports Complex_Main
begin

section \<open>JavaScript numbers\<close>

text \<open>
  Every number of \<^verbatim>\<open>main.js\<close> is a JavaScript Number. A finite value is modelled by
  the rational it denotes and arithmetic on finite values is exact; \<open>NaN\<close> and the two
  infinities are values of their own, with the arithmetic and the comparisons of the
  language. The rounding and the overflow of the results of arithmetic and the sign of zero
  are not represented (a zero divisor counts as \<open>+0\<close>); an integer read by \<^verbatim>\<open>parseInt\<close> is
  rounded, and is infinite when it is too large, as the section on strings sets out.
\<close>

datatype jsnum = NaN | NInf | Num rat | PInf

fun js_neg :: "jsnum \<Rightarrow> jsnum" where
  "js_neg NaN = NaN"
| "js_neg NInf = PInf"
| "js_neg (Num a) = Num (- a)"
| "js_neg PInf = NInf"

fun js_add :: "jsnum \<Rightarrow> jsnum \<Rightarrow> jsnum" where
  "js_add (Num a) (Num b) = Num (a + b)"
| "js_add NaN _ = NaN"
| "js_add _ NaN = NaN"
| "js_add PInf NInf = NaN"
| "js_add NInf PInf = NaN"
| "js_add PInf _ = PInf"
| "js_add _ PInf = PInf"
| "js_add NInf _ = NInf"
| "js_add _ NInf = NInf"

definition js_sub :: "jsnum \<Rightarrow> jsnum \<Rightarrow> jsnum" where
  "js_sub a b = js_add a (js_neg b)"

definition inf_of_sign :: "rat \<Rightarrow> jsnum" where
  "inf_of_sign s = (if s = 0 then NaN else if 0 < s then PInf else NInf)"

fun js_mul :: "jsnum \<Rightarrow> jsnum \<Rightarrow> jsnum" where
  "js_mul (Num a) (Num b) = Num (a * b)"
| "js_mul NaN _ = NaN"
| "js_mul _ NaN = NaN"
| "js_mul PInf (Num b) = inf_of_sign b"
| "js_mul NInf (Num b) = inf_of_sign (- b)"
| "js_mul (Num a) PInf = inf_of_sign a"
| "js_mul (Num a) NInf = inf_of_sign (- a)"
| "js_mul PInf PInf = PInf"
| "js_mul NInf NInf = PInf"
| "js_mul PInf NInf = NInf"
| "js_mul NInf PInf = NInf"

fun js_div :: "jsnum \<Rightarrow> jsnum \<Rightarrow> jsnum" where
  "js_div (Num a) (Num b) = (if b = 0 then inf_of_sign a else Num (a / b))"
| "js_div NaN _ = NaN"
| "js_div _ NaN = NaN"
| "js_div (Num a) PInf = Num 0"
| "js_div (Num a) NInf = Num 0"
| "js_div PInf (Num b) = (if 0 \<le> b then PInf else NInf)"
| "js_div NInf (Num b) = (if 0 \<le> b then NInf else PInf)"
| "js_div PInf PInf = NaN"
| "js_div PInf NInf = NaN"
| "js_div NInf PInf = NaN"
| "js_div NInf NInf = NaN"

text \<open>The relational operators: every comparison with \<open>NaN\<close> is false.\<close>

fun js_lt :: "jsnum \<Rightarrow> jsnum \<Rightarrow> bool" where
  "js_lt (Num a) (Num b) = (a < b)"
| "js_lt NaN _ = False"
| "js_lt _ NaN = False"
| "js_lt _ NInf = False"
| "js_lt PInf _ = False"
| "js_lt NInf _ = True"
| "js_lt _ PInf = True"

fun js_le :: "jsnum \<Rightarrow> jsnum \<Rightarrow> bool" where
  "js_le (Num a) (Num b) = (a \<le> b)"
| "js_le NaN _ = False"
| "js_le _ NaN = False"
| "js_le NInf _ = True"
| "js_le _ PInf = True"
| "js_le _ NInf = False"
| "js_le PInf _ = False"

definition js_gt :: "jsnum \<Rightarrow> jsnum \<Rightarrow> bool" where
  "js_gt a b = js_lt b a"

definition isNaN :: "jsnum \<Rightarrow> bool" where
  "isNaN a = (a = NaN)"

section \<open>The string functions of the input handlers\<close>

text \<open>
  A JavaScript string is a sequence of UTF-16 code units, and a code unit is modelled by
  its number. \<open>utf16\<close> gives the code units of an ASCII literal.
\<close>

type_synonym code_unit = int

type_synonym jsstring = "code_unit list"

definition utf16 :: "string \<Rightarrow> jsstring" where
  "utf16 s = map of_char s"

text \<open>
  The white space that \<^verbatim>\<open>trim\<close>, \<^verbatim>\<open>parseInt\<close> and \<^verbatim>\<open>parseFloat\<close> skip is the white space
  and the line terminators of the language (ECMA-262, 12.2 and 12.3): tab, line feed,
  vertical tab, form feed, carriage return, space, U+00A0, U+1680, U+2000 to U+200A,
  U+2028, U+2029, U+202F, U+205F, U+3000 and U+FEFF.
\<close>

definition is_space :: "code_unit \<Rightarrow> bool" where
  "is_space c =
     (c \<in> {9, 10, 11, 12, 13, 32, 160, 5760, 8232, 8233, 8239, 8287, 12288, 65279}
      \<or> (8192 \<le> c \<and> c \<le> 8202))"

definition trim :: "jsstring \<Rightarrow> jsstring" where
  "trim s = rev (dropWhile is_space (rev (dropWhile is_space s)))"

text \<open>\<^verbatim>\<open>str.split(c)\<close>: the pieces between the separators; an empty string gives one
  empty piece.\<close>

fun split :: "code_unit \<Rightarrow> jsstring \<Rightarrow> jsstring list" where
  "split c [] = [[]]"
| "split c (x # xs) =
     (if x = c then [] # split c xs
      else (case split c xs of [] \<Rightarrow> [[x]] | p # ps \<Rightarrow> (x # p) # ps))"

definition digit_val :: "code_unit \<Rightarrow> int option" where
  "digit_val n =
     (if 48 \<le> n \<and> n \<le> 57 then Some (n - 48)
      else if 97 \<le> n \<and> n \<le> 102 then Some (n - 87)
      else if 65 \<le> n \<and> n \<le> 70 then Some (n - 55)
      else None)"

definition radix_digit :: "int \<Rightarrow> code_unit \<Rightarrow> int option" where
  "radix_digit R c =
     (case digit_val c of None \<Rightarrow> None | Some v \<Rightarrow> if v < R then Some v else None)"

definition is_digit :: "int \<Rightarrow> code_unit \<Rightarrow> bool" where
  "is_digit R c = (radix_digit R c \<noteq> None)"

definition digits_value :: "int \<Rightarrow> jsstring \<Rightarrow> int" where
  "digits_value R Z =
     foldl (\<lambda>a c. case radix_digit R c of None \<Rightarrow> a | Some v \<Rightarrow> a * R + v) 0 Z"

definition strip_sign :: "jsstring \<Rightarrow> int \<times> jsstring" where
  "strip_sign S =
     (case S of
        [] \<Rightarrow> (1, [])
      | c # cs \<Rightarrow>
          if c = of_char CHR ''-'' then (- 1, cs)
          else if c = of_char CHR ''+'' then (1, cs) else (1, S))"

text \<open>
  The Number that a natural number read from a string becomes. A Number is a double: an
  integer below \<open>2\<^sup>5\<^sup>3\<close> is itself, a larger one is rounded to 53 significant bits (to the
  nearest, a tie to the even one), and from \<open>2\<^sup>1\<^sup>0\<^sup>2\<^sup>4 - 2\<^sup>9\<^sup>7\<^sup>0\<close> on, where the rounding leaves
  the range of the doubles, it is \<^verbatim>\<open>Infinity\<close>.
\<close>

function bit_length :: "int \<Rightarrow> nat" where
  "bit_length n = (if n \<le> 0 then 0 else Suc (bit_length (n div 2)))"
  by pat_completeness auto
termination
  by (relation "measure nat") simp_all

declare bit_length.simps [simp del]

definition round_to_53_bits :: "int \<Rightarrow> int" where
  "round_to_53_bits m =
     (if m < 2 ^ 53 then m
      else
        let e = bit_length m - 53;
            q = m div 2 ^ e;
            r = m mod 2 ^ e;
            half = 2 ^ (e - 1)
        in (if half < r then q + 1
            else if r = half \<and> q mod 2 = 1 then q + 1
            else q) * 2 ^ e)"

definition number_of_digits :: "int \<Rightarrow> jsnum" where
  "number_of_digits m =
     (if 2 ^ 1024 - 2 ^ 970 \<le> m then PInf else Num (of_int (round_to_53_bits m)))"

text \<open>
  \<^verbatim>\<open>parseInt(string)\<close> with no radix (ECMA-262, 19.2.5): leading white space is skipped,
  a sign is read, a prefix \<^verbatim>\<open>0x\<close> or \<^verbatim>\<open>0X\<close> selects radix 16, and the longest run of
  digits is the value, as a Number; with no digit the result is \<open>NaN\<close>. Whatever follows
  the digits is ignored. (For a decimal run of more than twenty digits the language lets
  an implementation read the digits after the twentieth as zeros; the value taken here
  is the one of all the digits. Either way the result is an integer or an infinity.)
\<close>

definition parseInt :: "jsstring \<Rightarrow> jsnum" where
  "parseInt s =
     (let (sign, S) = strip_sign (dropWhile is_space s);
          (R, S') = (if take 2 S = utf16 ''0x'' \<or> take 2 S = utf16 ''0X''
                     then (16, drop 2 S) else (10, S));
          Z = takeWhile (is_digit R) S'
      in if Z = [] then NaN
         else if sign < 0 then js_neg (number_of_digits (digits_value R Z))
         else number_of_digits (digits_value R Z))"

text \<open>
  \<^verbatim>\<open>parseFloat(string)\<close> (ECMA-262, 19.2.4): the longest prefix, after leading white space,
  that is a decimal literal: a sign, then \<^verbatim>\<open>Infinity\<close> or digits with an optional
  fraction and an optional exponent; \<open>NaN\<close> when there is none. The value of the literal
  is kept exact.
\<close>

definition exponent_part :: "jsstring \<Rightarrow> int" where
  "exponent_part S =
     (case S of
        [] \<Rightarrow> 0
      | c # cs \<Rightarrow>
          if c = of_char CHR ''e'' \<or> c = of_char CHR ''E'' then
            (let (esign, ds) = strip_sign cs; E = takeWhile (is_digit 10) ds
             in if E = [] then 0 else esign * digits_value 10 E)
          else 0)"

definition pow10 :: "int \<Rightarrow> rat" where
  "pow10 e = (if 0 \<le> e then 10 ^ nat e else 1 / 10 ^ nat (- e))"

definition parseFloat :: "jsstring \<Rightarrow> jsnum" where
  "parseFloat s =
     (let (sign, S) = strip_sign (dropWhile is_space s) in
      if take 8 S = utf16 ''Infinity'' then (if sign < 0 then NInf else PInf)
      else
        let ip = takeWhile (is_digit 10) S;
            S1 = dropWhile (is_digit 10) S;
            has_dot = (S1 \<noteq> [] \<and> hd S1 = of_char CHR ''.'');
            fp = (if has_dot then takeWhile (is_digit 10) (tl S1) else []);
            S2 = (if has_dot then dropWhile (is_digit 10) (tl S1) else S1)
        in if ip = [] \<and> fp = [] then NaN
           else Num (of_int sign
                     * (of_int (digits_value 10 ip)
                        + of_int (digits_value 10 fp) / 10 ^ length fp)
                     * pow10 (exponent_part S2)))"

section \<open>The parameters and the scene\<close>

definition BOX_WIDTH :: jsnum where "BOX_WIDTH = Num 20"
definition BOX_DEPTH :: jsnum where "BOX_DEPTH = Num 20"
definition HEIGHT_PER_HOLE :: jsnum where "HEIGHT_PER_HOLE = Num 20"
definition FIRST_HOLE_OFFSET :: jsnum where "FIRST_HOLE_OFFSET = Num 10"
definition HOLE_STEP :: jsnum where "HOLE_STEP = Num 20"
definition BATCH_SPACING :: jsnum where "BATCH_SPACING = Num 40"
definition SEGMENTS :: nat where "SEGMENTS = 16"

type_synonym vec3 = "jsnum \<times> jsnum \<times> jsnum"

text \<open>
  \<^verbatim>\<open>THREE.BoxGeometry(width, height, depth)\<close> and
  \<^verbatim>\<open>THREE.CylinderGeometry(radiusTop, radiusBottom, height, radialSegments)\<close>: both are
  centred on the origin, the cylinder with its axis along Y.
\<close>

record box_geometry =
  box_width :: jsnum
  box_height :: jsnum
  box_depth :: jsnum

record cylinder_geometry =
  radiusTop :: jsnum
  radiusBottom :: jsnum
  cyl_height :: jsnum
  radialSegments :: nat

text \<open>
  The only angles the program sets are \<^verbatim>\<open>0\<close> and \<^verbatim>\<open>Math.PI / 2\<close>; a rotation is the
  triple of Euler angles given to \<^verbatim>\<open>rotation.set\<close>.
\<close>

datatype angle = Zero | HalfPi

type_synonym euler = "angle \<times> angle \<times> angle"

text \<open>The cutters, by the name of the variable that holds them in \<^verbatim>\<open>generateModel\<close>.\<close>

datatype brush_name =
  vCylBrush | xBrush | zBrush | fG | bG | rG | lG | topX | topZ | botX | botZ

record brush =
  name :: brush_name
  geometry :: cylinder_geometry
  rotation :: euler
  position :: vec3

text \<open>
  A solid under construction (\<^verbatim>\<open>resultBrush\<close>): the box brush and the cutters subtracted
  from it so far, in order. \<^verbatim>\<open>evaluator.evaluate(a, b, SUBTRACTION)\<close> of the CSG library
  is recorded as one more subtracted cutter. The call is taken to return, as it does on
  a box and a cylinder with finite dimensions; what the library does with a dimension
  that is \<open>NaN\<close> is not fixed by \<^verbatim>\<open>main.js\<close>, and the statements on input that is not a
  number stop at the operands of the first call.
\<close>

record solid =
  box :: box_geometry
  box_position :: vec3
  subtracted :: "brush list"

definition evaluate_SUBTRACTION :: "solid \<Rightarrow> brush \<Rightarrow> solid" where
  "evaluate_SUBTRACTION a b = a\<lparr>subtracted := subtracted a @ [b]\<rparr>"

text \<open>The module-level variables: the parameters and the meshes on display.\<close>

record app_state =
  mode :: string
  numHoles :: jsnum
  batchList :: "jsnum list"
  drillRadius :: jsnum
  grooveDepth :: jsnum
  currentMeshes :: "solid list"

definition initial_state :: app_state where
  "initial_state =
     \<lparr>mode = ''single'', numHoles = Num 5, batchList = [Num 3, Num 2, Num 5],
      drillRadius = Num 4, grooveDepth = Num (1 / 2), currentMeshes = []\<rparr>"

section \<open>The input handlers\<close>

text \<open>
  Each handler reads \<^verbatim>\<open>e.target.value\<close>, a string, and stores the parsed parameter; the
  regeneration it schedules runs \<open>generateModel\<close> on the state it leaves.
\<close>

definition mode_change :: "string \<Rightarrow> app_state \<Rightarrow> app_state" where
  "mode_change v st = st\<lparr>mode := v\<rparr>"

definition holes_input :: "jsstring \<Rightarrow> app_state \<Rightarrow> app_state" where
  "holes_input v st =
     (let val = parseInt v;
          val = (if js_lt val (Num 1) then Num 1 else val)
      in st\<lparr>numHoles := val\<rparr>)"

definition batch_parts :: "jsstring \<Rightarrow> jsnum list" where
  "batch_parts str =
     filter (\<lambda>n. \<not> isNaN n \<and> js_gt n (Num 0)) (map (\<lambda>s. parseInt (trim s)) (split (of_char CHR '','') str))"

definition batch_input :: "jsstring \<Rightarrow> app_state \<Rightarrow> app_state" where
  "batch_input str st =
     (let parts = batch_parts str
      in if length parts > 0 then st\<lparr>batchList := parts\<rparr> else st)"

definition radius_input :: "jsstring \<Rightarrow> app_state \<Rightarrow> app_state" where
  "radius_input v st =
     (let val = parseFloat v;
          val = (if js_le val (Num 0) then Num (1 / 2) else val)
      in st\<lparr>drillRadius := val\<rparr>)"

definition depth_input :: "jsstring \<Rightarrow> app_state \<Rightarrow> app_state" where
  "depth_input v st = (let val = parseFloat v in st\<lparr>grooveDepth := val\<rparr>)"

section \<open>The mesh pipeline: \<^verbatim>\<open>generateModel\<close>\<close>

definition mk_brush :: "brush_name \<Rightarrow> cylinder_geometry \<Rightarrow> euler \<Rightarrow> vec3 \<Rightarrow> brush" where
  "mk_brush n g r p = \<lparr>name = n, geometry = g, rotation = r, position = p\<rparr>"

text \<open>One pass of the loop over the holes of a block, at loop counter \<open>i\<close>.\<close>

definition hole_level ::
  "app_state \<Rightarrow> cylinder_geometry \<Rightarrow> jsnum \<Rightarrow> jsnum \<Rightarrow> jsnum \<Rightarrow> nat \<Rightarrow> solid \<Rightarrow> solid" where
  "hole_level st hCylGeo xOffset boxHeight sideGrooveOffset i resultBrush =
     (let yPos = js_add (js_add (js_div (js_neg boxHeight) (Num 2)) FIRST_HOLE_OFFSET)
                        (js_mul (Num (of_nat i)) HOLE_STEP);
          resultBrush = evaluate_SUBTRACTION resultBrush
            (mk_brush xBrush hCylGeo (Zero, Zero, HalfPi) (xOffset, yPos, Num 0));
          resultBrush = evaluate_SUBTRACTION resultBrush
            (mk_brush zBrush hCylGeo (HalfPi, Zero, Zero) (xOffset, yPos, Num 0))
      in if js_gt (grooveDepth st) (Num 0) then
           (let resultBrush = evaluate_SUBTRACTION resultBrush
                  (mk_brush fG hCylGeo (Zero, Zero, HalfPi) (xOffset, yPos, sideGrooveOffset));
                resultBrush = evaluate_SUBTRACTION resultBrush
                  (mk_brush bG hCylGeo (Zero, Zero, HalfPi)
                     (xOffset, yPos, js_neg sideGrooveOffset));
                resultBrush = evaluate_SUBTRACTION resultBrush
                  (mk_brush rG hCylGeo (HalfPi, Zero, Zero)
                     (js_add xOffset sideGrooveOffset, yPos, Num 0));
                resultBrush = evaluate_SUBTRACTION resultBrush
                  (mk_brush lG hCylGeo (HalfPi, Zero, Zero)
                     (js_sub xOffset sideGrooveOffset, yPos, Num 0))
            in resultBrush)
         else resultBrush)"

text \<open>
  \<^verbatim>\<open>for (let i = 0; i < holes; i++)\<close>. The counter is a natural number; the loop does not
  end when \<^verbatim>\<open>holes\<close> is \<^verbatim>\<open>Infinity\<close>, so its result is optional.
\<close>

partial_function (option) hole_loop ::
  "(nat \<Rightarrow> solid \<Rightarrow> solid) \<Rightarrow> jsnum \<Rightarrow> nat \<Rightarrow> solid \<Rightarrow> solid option" where
  "hole_loop body holes i resultBrush =
     (if js_lt (Num (of_nat i)) holes then hole_loop body holes (Suc i) (body i resultBrush)
      else Some resultBrush)"

declare hole_loop.simps [code]

definition top_bottom_grooves ::
  "app_state \<Rightarrow> cylinder_geometry \<Rightarrow> jsnum \<Rightarrow> jsnum \<Rightarrow> solid \<Rightarrow> solid" where
  "top_bottom_grooves st hCylGeo xOffset topBottomGrooveOffset resultBrush =
     (if js_gt (grooveDepth st) (Num 0) then
        (let resultBrush = evaluate_SUBTRACTION resultBrush
               (mk_brush topX hCylGeo (Zero, Zero, HalfPi) (xOffset, topBottomGrooveOffset, Num 0));
             resultBrush = evaluate_SUBTRACTION resultBrush
               (mk_brush topZ hCylGeo (HalfPi, Zero, Zero) (xOffset, topBottomGrooveOffset, Num 0));
             resultBrush = evaluate_SUBTRACTION resultBrush
               (mk_brush botX hCylGeo (Zero, Zero, HalfPi)
                  (xOffset, js_neg topBottomGrooveOffset, Num 0));
             resultBrush = evaluate_SUBTRACTION resultBrush
               (mk_brush botZ hCylGeo (HalfPi, Zero, Zero)
                  (xOffset, js_neg topBottomGrooveOffset, Num 0))
         in resultBrush)
      else resultBrush)"

text \<open>The callback of \<^verbatim>\<open>blocksToMake.forEach((holes, index) => ...)\<close>: it builds one block
  and pushes its mesh on \<^verbatim>\<open>currentMeshes\<close>.\<close>

definition make_block :: "cylinder_geometry \<Rightarrow> jsnum \<Rightarrow> nat \<Rightarrow> app_state \<Rightarrow> app_state option" where
  "make_block hCylGeo holes index st =
     (let boxHeight = js_mul holes HEIGHT_PER_HOLE;
          boxGeo = \<lparr>box_width = BOX_WIDTH, box_height = boxHeight, box_depth = BOX_DEPTH\<rparr>;
          xOffset = js_mul (Num (of_nat index)) BATCH_SPACING;
          boxBrush = \<lparr>box = boxGeo, box_position = (xOffset, Num 0, Num 0), subtracted = []\<rparr>;
          resultBrush = boxBrush;
          vCylGeo = \<lparr>radiusTop = drillRadius st, radiusBottom = drillRadius st,
                     cyl_height = js_add boxHeight (Num 20), radialSegments = SEGMENTS\<rparr>;
          resultBrush = evaluate_SUBTRACTION resultBrush
            (mk_brush vCylBrush vCylGeo (Zero, Zero, Zero) (xOffset, Num 0, Num 0));
          sideGrooveOffset =
            js_add (js_sub (js_div BOX_WIDTH (Num 2)) (grooveDepth st)) (drillRadius st);
          topBottomGrooveOffset =
            js_add (js_sub (js_div boxHeight (Num 2)) (grooveDepth st)) (drillRadius st)
      in case hole_loop (hole_level st hCylGeo xOffset boxHeight sideGrooveOffset)
                holes 0 resultBrush of
           None \<Rightarrow> None
         | Some resultBrush \<Rightarrow>
             (let resultBrush =
                    top_bottom_grooves st hCylGeo xOffset topBottomGrooveOffset resultBrush
              in Some (st\<lparr>currentMeshes := currentMeshes st @ [resultBrush]\<rparr>)))"

text \<open>\<^verbatim>\<open>Array.prototype.forEach\<close> with the element and its index, threading the state.\<close>

fun forEach ::
  "('a \<Rightarrow> nat \<Rightarrow> 's \<Rightarrow> 's option) \<Rightarrow> 'a list \<Rightarrow> nat \<Rightarrow> 's \<Rightarrow> 's option" where
  "forEach f [] index st = Some st"
| "forEach f (x # xs) index st =
     (case f x index st of None \<Rightarrow> None | Some st' \<Rightarrow> forEach f xs (Suc index) st')"

definition blocksToMake :: "app_state \<Rightarrow> jsnum list" where
  "blocksToMake st = (if mode st = ''single'' then [numHoles st] else batchList st)"

definition generateModel :: "app_state \<Rightarrow> app_state option" where
  "generateModel st0 =
     (let st = st0\<lparr>currentMeshes := []\<rparr>;
          hCylGeo = \<lparr>radiusTop = drillRadius st, radiusBottom = drillRadius st,
                     cyl_height = Num 80, radialSegments = SEGMENTS\<rparr>
      in forEach (make_block hCylGeo) (blocksToMake st) 0 st)"

text \<open>
  The operands of the first call of \<^verbatim>\<open>evaluator.evaluate\<close> in a run of \<^verbatim>\<open>generateModel\<close>:
  the box brush and the vertical cylinder of the first block, as the callback builds them
  at index 0. There is none when there is no block to make.
\<close>

definition first_evaluate :: "app_state \<Rightarrow> (solid \<times> brush) option" where
  "first_evaluate st =
     (case blocksToMake st of
        [] \<Rightarrow> None
      | holes # _ \<Rightarrow>
          (let boxHeight = js_mul holes HEIGHT_PER_HOLE;
               boxGeo = \<lparr>box_width = BOX_WIDTH, box_height = boxHeight, box_depth = BOX_DEPTH\<rparr>;
               xOffset = js_mul (Num (of_nat 0)) BATCH_SPACING;
               boxBrush = \<lparr>box = boxGeo, box_position = (xOffset, Num 0, Num 0), subtracted = []\<rparr>;
               vCylGeo = \<lparr>radiusTop = drillRadius st, radiusBottom = drillRadius st,
                          cyl_height = js_add boxHeight (Num 20), radialSegments = SEGMENTS\<rparr>
           in Some (boxBrush,
                    mk_brush vCylBrush vCylGeo (Zero, Zero, Zero) (xOffset, Num 0, Num 0))))"

section \<open>The script emitter: \<^verbatim>\<open>downloadRhinoScript\<close>\<close>

text \<open>
  The emitted text is a fixed Python program with holes, each filled by the string of
  a JavaScript number. The script is modelled by the values that fill its holes, named by
  the place they fill, and the Python program around them by the functions
  \<open>create_block\<close> and \<open>main\<close> below.
\<close>

record rhino_script =
  lit_width :: jsnum
  lit_depth :: jsnum
  lit_height_per_hole :: jsnum
  lit_radius :: jsnum
  lit_offset :: jsnum
  lit_step_size :: jsnum
  lit_groove_offset :: jsnum
  lit_level_guard :: jsnum
  lit_tb_guard :: jsnum
  lit_tb_depth :: jsnum
  lit_tb_radius :: jsnum
  lit_blocks :: "jsnum list"
  lit_spacing :: jsnum

definition downloadRhinoScript :: "app_state \<Rightarrow> rhino_script" where
  "downloadRhinoScript st =
     (let blocks = (if mode st = ''single'' then [numHoles st] else batchList st)
      in \<lparr>lit_width = BOX_WIDTH,
          lit_depth = BOX_DEPTH,
          lit_height_per_hole = HEIGHT_PER_HOLE,
          lit_radius = drillRadius st,
          lit_offset = FIRST_HOLE_OFFSET,
          lit_step_size = HOLE_STEP,
          lit_groove_offset =
            js_add (js_sub (js_div BOX_WIDTH (Num 2)) (grooveDepth st)) (drillRadius st),
          lit_level_guard = grooveDepth st,
          lit_tb_guard = grooveDepth st,
          lit_tb_depth = grooveDepth st,
          lit_tb_radius = drillRadius st,
          lit_blocks = blocks,
          lit_spacing = BATCH_SPACING\<rparr>)"

subsection \<open>The Python program of the script\<close>

text \<open>
  A finite number is printed as a decimal literal and read back by Python as the same
  number; \<^verbatim>\<open>NaN\<close>, \<^verbatim>\<open>Infinity\<close> and \<^verbatim>\<open>-Infinity\<close> are printed as these words, which
  are undefined names in the script: evaluating them raises \<^verbatim>\<open>NameError\<close>. Python numbers
  are rationals here; the heights are multiples of 20, so that the halvings of the
  script are exact also where Python divides integers.
\<close>

datatype py_error = NameError | TypeError

type_synonym 'a py = "py_error + 'a"

definition py_bind :: "'a py \<Rightarrow> ('a \<Rightarrow> 'b py) \<Rightarrow> 'b py" where
  "py_bind m f = (case m of Inl e \<Rightarrow> Inl e | Inr v \<Rightarrow> f v)"

definition py_literal :: "jsnum \<Rightarrow> rat py" where
  "py_literal x = (case x of Num q \<Rightarrow> Inr q | _ \<Rightarrow> Inl NameError)"

text \<open>\<^verbatim>\<open>range(n)\<close>: a number that is not an integer is a float, which \<^verbatim>\<open>range\<close> rejects.\<close>

definition py_range :: "rat \<Rightarrow> (nat list) py" where
  "py_range n = (if n = of_int \<lfloor>n\<rfloor> then Inr [0..<nat \<lfloor>n\<rfloor>] else Inl TypeError)"

fun py_for :: "('a \<Rightarrow> 's \<Rightarrow> 's py) \<Rightarrow> 'a list \<Rightarrow> 's \<Rightarrow> 's py" where
  "py_for body [] s = Inr s"
| "py_for body (x # xs) s = py_bind (body x s) (py_for body xs)"

fun py_list :: "('a py) list \<Rightarrow> ('a list) py" where
  "py_list [] = Inr []"
| "py_list (m # ms) = py_bind m (\<lambda>v. py_bind (py_list ms) (\<lambda>vs. Inr (v # vs)))"

type_synonym point = "rat \<times> rat \<times> rat"

text \<open>The cylinders of the script, by the name of the plane (or, for the first, of the
  cylinder) they are built from.\<close>

datatype cutter_name =
  cyl_v | plane_x | plane_y | plane_g1 | plane_g2 | plane_g3 | plane_g4
  | plane_tx | plane_ty | plane_bx | plane_by

text \<open>\<^verbatim>\<open>rs.AddCylinder(rs.PlaneFromNormal(origin, normal), height, radius)\<close>: the cylinder
  that starts at \<open>origin\<close> and extends by \<open>height\<close> along \<open>normal\<close>.\<close>

record rhino_cylinder =
  cutter :: cutter_name
  origin :: point
  normal :: point
  extent :: rat
  radius :: rat

definition AddCylinder :: "cutter_name \<Rightarrow> point \<Rightarrow> point \<Rightarrow> rat \<Rightarrow> rat \<Rightarrow> rhino_cylinder" where
  "AddCylinder n p v h r = \<lparr>cutter = n, origin = p, normal = v, extent = h, radius = r\<rparr>"

text \<open>The arguments of \<^verbatim>\<open>rs.BooleanDifference(base_id, cutters)\<close>: the corners of the box
  and the cylinders taken from it.\<close>

record rhino_block =
  base_id :: "point list"
  cutters :: "rhino_cylinder list"

definition script_level ::
  "rhino_script \<Rightarrow> rat \<Rightarrow> rat \<Rightarrow> rat \<Rightarrow> rat \<Rightarrow> rat \<Rightarrow> rat \<Rightarrow> rat \<Rightarrow>
   nat \<Rightarrow> rhino_cylinder list \<Rightarrow> (rhino_cylinder list) py" where
  "script_level sc cx height offset step_size groove_offset cross_length rad i cs =
     (let z_pos = (- height / 2) + offset + (of_nat i * step_size);
          cs = cs @ [AddCylinder plane_x (cx - 40, 0, z_pos) (1, 0, 0) cross_length rad];
          cs = cs @ [AddCylinder plane_y (cx, - 40, z_pos) (0, 1, 0) cross_length rad]
      in py_bind (py_literal (lit_level_guard sc)) (\<lambda>g.
           if g > 0 then
             (let cs = cs @ [AddCylinder plane_g1 (cx - 40, groove_offset, z_pos) (1, 0, 0)
                               cross_length rad];
                  cs = cs @ [AddCylinder plane_g2 (cx - 40, - groove_offset, z_pos) (1, 0, 0)
                               cross_length rad];
                  cs = cs @ [AddCylinder plane_g3 (cx + groove_offset, - 40, z_pos) (0, 1, 0)
                               cross_length rad];
                  cs = cs @ [AddCylinder plane_g4 (cx - groove_offset, - 40, z_pos) (0, 1, 0)
                               cross_length rad]
              in Inr cs)
           else Inr cs))"

definition script_top_bottom ::
  "rhino_script \<Rightarrow> rat \<Rightarrow> rat \<Rightarrow> rat \<Rightarrow> rat \<Rightarrow> rhino_cylinder list \<Rightarrow> (rhino_cylinder list) py" where
  "script_top_bottom sc cx height cross_length rad cs =
     py_bind (py_literal (lit_tb_guard sc)) (\<lambda>g.
       if g > 0 then
         py_bind (py_literal (lit_tb_depth sc)) (\<lambda>d.
         py_bind (py_literal (lit_tb_radius sc)) (\<lambda>r.
           (let tb_offset = (height / 2) - d + r;
                cs = cs @ [AddCylinder plane_tx (cx - 40, 0, tb_offset) (1, 0, 0) cross_length rad];
                cs = cs @ [AddCylinder plane_ty (cx, - 40, tb_offset) (0, 1, 0) cross_length rad];
                cs = cs @ [AddCylinder plane_bx (cx - 40, 0, - tb_offset) (1, 0, 0)
                             cross_length rad];
                cs = cs @ [AddCylinder plane_by (cx, - 40, - tb_offset) (0, 1, 0)
                             cross_length rad]
            in Inr cs)))
       else Inr cs)"

definition create_block :: "rhino_script \<Rightarrow> rat \<Rightarrow> rat \<Rightarrow> rhino_block py" where
  "create_block sc num_holes x_offset =
     py_bind (py_literal (lit_width sc)) (\<lambda>width.
     py_bind (py_literal (lit_depth sc)) (\<lambda>depth.
     py_bind (py_literal (lit_height_per_hole sc)) (\<lambda>hph.
       (let height = num_holes * hph;
            cx = x_offset; cy = 0; cz = 0;
            c1 = (cx - width / 2, cy - depth / 2, cz - height / 2);
            c2 = (cx + width / 2, cy - depth / 2, cz - height / 2);
            c3 = (cx + width / 2, cy + depth / 2, cz - height / 2);
            c4 = (cx - width / 2, cy + depth / 2, cz - height / 2);
            c5 = (cx - width / 2, cy - depth / 2, cz + height / 2);
            c6 = (cx + width / 2, cy - depth / 2, cz + height / 2);
            c7 = (cx + width / 2, cy + depth / 2, cz + height / 2);
            c8 = (cx - width / 2, cy + depth / 2, cz + height / 2);
            base = [c1, c2, c3, c4, c5, c6, c7, c8]
        in py_bind (py_literal (lit_radius sc)) (\<lambda>rad.
             (let base_pt = (cx, 0, - height / 2 - 50);
                  cs = [AddCylinder cyl_v base_pt (0, 0, 1) (height + 100) rad];
                  steps = num_holes
              in py_bind (py_literal (lit_offset sc)) (\<lambda>offset.
                 py_bind (py_literal (lit_step_size sc)) (\<lambda>step_size.
                 py_bind (py_literal (lit_groove_offset sc)) (\<lambda>groove_offset.
                   (let cross_length = 80
                    in py_bind (py_range steps) (\<lambda>levels.
                       py_bind (py_for (script_level sc cx height offset step_size groove_offset
                                          cross_length rad) levels cs) (\<lambda>cs.
                       py_bind (script_top_bottom sc cx height cross_length rad cs) (\<lambda>cs.
                         Inr \<lparr>base_id = base, cutters = cs\<rparr>)))))))))))))"

text \<open>\<^verbatim>\<open>main()\<close>: the list of hole counts, the spacing, and one call of
  \<open>create_block\<close> for each entry with its index; its value is the list of the blocks
  built.\<close>

fun main_loop :: "rhino_script \<Rightarrow> rat \<Rightarrow> (nat \<times> rat) list \<Rightarrow> (rhino_block list) py" where
  "main_loop sc spacing [] = Inr []"
| "main_loop sc spacing ((i, h) # rest) =
     (let x_pos = of_nat i * spacing
      in py_bind (create_block sc h x_pos) (\<lambda>b.
         py_bind (main_loop sc spacing rest) (\<lambda>bs. Inr (b # bs))))"

definition main :: "rhino_script \<Rightarrow> (rhino_block list) py" where
  "main sc =
     py_bind (py_list (map py_literal (lit_blocks sc))) (\<lambda>blocks.
     py_bind (py_literal (lit_spacing sc)) (\<lambda>spacing.
       main_loop sc spacing (enumerate 0 blocks)))"

section \<open>Observations on the generated geometry\<close>

text \<open>The families of cutters: the vertical hole, the through-holes of a hole level, the
  grooves near the four side faces, and the grooves near the top and bottom faces.\<close>

datatype cutter_family = VerticalHole | ThroughHole | SideGroove | TopBottomGroove

fun brush_family :: "brush_name \<Rightarrow> cutter_family" where
  "brush_family vCylBrush = VerticalHole"
| "brush_family xBrush = ThroughHole"
| "brush_family zBrush = ThroughHole"
| "brush_family fG = SideGroove"
| "brush_family bG = SideGroove"
| "brush_family rG = SideGroove"
| "brush_family lG = SideGroove"
| "brush_family topX = TopBottomGroove"
| "brush_family topZ = TopBottomGroove"
| "brush_family botX = TopBottomGroove"
| "brush_family botZ = TopBottomGroove"

fun script_family :: "cutter_name \<Rightarrow> cutter_family" where
  "script_family cyl_v = VerticalHole"
| "script_family plane_x = ThroughHole"
| "script_family plane_y = ThroughHole"
| "script_family plane_g1 = SideGroove"
| "script_family plane_g2 = SideGroove"
| "script_family plane_g3 = SideGroove"
| "script_family plane_g4 = SideGroove"
| "script_family plane_tx = TopBottomGroove"
| "script_family plane_ty = TopBottomGroove"
| "script_family plane_bx = TopBottomGroove"
| "script_family plane_by = TopBottomGroove"

definition count_family :: "cutter_family \<Rightarrow> brush list \<Rightarrow> nat" where
  "count_family f bs = length (filter (\<lambda>b. brush_family (name b) = f) bs)"

definition count_script_family :: "cutter_family \<Rightarrow> rhino_cylinder list \<Rightarrow> nat" where
  "count_script_family f cs = length (filter (\<lambda>c. script_family (cutter c) = f) cs)"

text \<open>
  A placed cylinder: the line of its axis, its centre, its radius and its length. A
  \<^verbatim>\<open>CylinderGeometry\<close> has its axis along Y and is centred on the position of its brush;
  the Euler angles (order XYZ) turn the axis about Z, then Y, then X. A Rhino cylinder
  starts at the origin of its plane and extends along the normal.
\<close>

datatype axis = AxisX | AxisY | AxisZ

fun turn_about :: "axis \<Rightarrow> angle \<Rightarrow> axis \<Rightarrow> axis" where
  "turn_about _ Zero a = a"
| "turn_about AxisX HalfPi a = (case a of AxisX \<Rightarrow> AxisX | AxisY \<Rightarrow> AxisZ | AxisZ \<Rightarrow> AxisY)"
| "turn_about AxisY HalfPi a = (case a of AxisX \<Rightarrow> AxisZ | AxisY \<Rightarrow> AxisY | AxisZ \<Rightarrow> AxisX)"
| "turn_about AxisZ HalfPi a = (case a of AxisX \<Rightarrow> AxisY | AxisY \<Rightarrow> AxisX | AxisZ \<Rightarrow> AxisZ)"

definition brush_axis :: "euler \<Rightarrow> axis" where
  "brush_axis e =
     (case e of (rx, ry, rz) \<Rightarrow>
        turn_about AxisX rx (turn_about AxisY ry (turn_about AxisZ rz AxisY)))"

type_synonym placed_cylinder = "axis \<times> vec3 \<times> jsnum \<times> jsnum"

definition brush_cylinder :: "brush \<Rightarrow> placed_cylinder option" where
  "brush_cylinder b =
     (if radiusTop (geometry b) = radiusBottom (geometry b) then
        Some (brush_axis (rotation b), position b, radiusTop (geometry b),
              cyl_height (geometry b))
      else None)"

definition normal_axis :: "point \<Rightarrow> axis option" where
  "normal_axis v =
     (if v = (1, 0, 0) then Some AxisX else if v = (0, 1, 0) then Some AxisY
      else if v = (0, 0, 1) then Some AxisZ else None)"

definition centre :: "rhino_cylinder \<Rightarrow> point" where
  "centre c =
     (case (origin c, normal c) of
        ((x, y, z), (u, v, w)) \<Rightarrow>
          (x + extent c / 2 * u, y + extent c / 2 * v, z + extent c / 2 * w))"

definition num_point :: "point \<Rightarrow> vec3" where
  "num_point p = (case p of (x, y, z) \<Rightarrow> (Num x, Num y, Num z))"

definition rhino_cylinder_placed :: "rhino_cylinder \<Rightarrow> placed_cylinder option" where
  "rhino_cylinder_placed c =
     (case normal_axis (normal c) of
        None \<Rightarrow> None
      | Some a \<Rightarrow> Some (a, num_point (centre c), Num (radius c), Num (extent c)))"

text \<open>
  The mesh has its long axis along Y and its front face towards +Z; the script has the
  long axis along Z and the front face towards +Y. The two frames are related by the
  exchange of the second and third coordinates.
\<close>

definition exchange_yz :: "'a \<times> 'a \<times> 'a \<Rightarrow> 'a \<times> 'a \<times> 'a" where
  "exchange_yz p = (case p of (x, y, z) \<Rightarrow> (x, z, y))"

definition to_script_frame :: "placed_cylinder \<Rightarrow> placed_cylinder" where
  "to_script_frame c =
     (case c of (a, p, r, l) \<Rightarrow>
        ((case a of AxisX \<Rightarrow> AxisX | AxisY \<Rightarrow> AxisZ | AxisZ \<Rightarrow> AxisY), exchange_yz p, r, l))"

text \<open>The least and the greatest corner of a box: of the box brush of a solid, and of the
  corner list given to \<^verbatim>\<open>rs.AddBox\<close>.\<close>

definition solid_bounds :: "solid \<Rightarrow> vec3 \<times> vec3" where
  "solid_bounds m =
     (case box_position m of
        (x, y, z) \<Rightarrow>
          (let w = js_div (box_width (box m)) (Num 2);
               h = js_div (box_height (box m)) (Num 2);
               d = js_div (box_depth (box m)) (Num 2)
           in ((js_sub x w, js_sub y h, js_sub z d), (js_add x w, js_add y h, js_add z d))))"

definition corner_bounds :: "point list \<Rightarrow> point \<times> point" where
  "corner_bounds ps =
     (case ps of
        [] \<Rightarrow> ((0, 0, 0), (0, 0, 0))
      | p # qs \<Rightarrow>
          fold (\<lambda>(x, y, z) ((a, b, c), (d, e, f)).
                  ((min x a, min y b, min z c), (max x d, max y e, max z f)))
               qs (p, p))"

definition script_box_height :: "rhino_block \<Rightarrow> rat" where
  "script_box_height b =
     (case corner_bounds (base_id b) of ((a, b, c), (d, e, f)) \<Rightarrow> f - c)"

definition script_box_centre :: "rhino_block \<Rightarrow> point" where
  "script_box_centre b =
     (case corner_bounds (base_id b) of
        ((a, b, c), (d, e, f)) \<Rightarrow> ((a + d) / 2, (b + e) / 2, (c + f) / 2))"

text \<open>
  The points of the generated geometry. A cylinder holds the points within its radius of
  its axis and within half its length of its centre along the axis; a solid is its box
  without the points of the cutters subtracted from it. A cylinder or a box with a
  coordinate that is not finite holds no point.
\<close>

definition cylinder_contains :: "axis \<Rightarrow> point \<Rightarrow> rat \<Rightarrow> rat \<Rightarrow> point \<Rightarrow> bool" where
  "cylinder_contains a c r l p =
     (case (c, p) of
        ((cx, cy, cz), (x, y, z)) \<Rightarrow>
          (case a of
             AxisX \<Rightarrow> \<bar>x - cx\<bar> \<le> l / 2 \<and> (y - cy)\<^sup>2 + (z - cz)\<^sup>2 \<le> r\<^sup>2
           | AxisY \<Rightarrow> \<bar>y - cy\<bar> \<le> l / 2 \<and> (x - cx)\<^sup>2 + (z - cz)\<^sup>2 \<le> r\<^sup>2
           | AxisZ \<Rightarrow> \<bar>z - cz\<bar> \<le> l / 2 \<and> (x - cx)\<^sup>2 + (y - cy)\<^sup>2 \<le> r\<^sup>2))"

definition placed_contains :: "placed_cylinder option \<Rightarrow> point \<Rightarrow> bool" where
  "placed_contains c p =
     (case c of
        Some (a, (Num cx, Num cy, Num cz), Num r, Num l) \<Rightarrow> cylinder_contains a (cx, cy, cz) r l p
      | _ \<Rightarrow> False)"

definition box_contains :: "point \<times> point \<Rightarrow> point \<Rightarrow> bool" where
  "box_contains b p =
     (case (b, p) of
        (((x0, y0, z0), (x1, y1, z1)), (x, y, z)) \<Rightarrow>
          x0 \<le> x \<and> x \<le> x1 \<and> y0 \<le> y \<and> y \<le> y1 \<and> z0 \<le> z \<and> z \<le> z1)"

definition solid_contains :: "solid \<Rightarrow> point \<Rightarrow> bool" where
  "solid_contains m p =
     (case solid_bounds m of
        ((Num x0, Num y0, Num z0), (Num x1, Num y1, Num z1)) \<Rightarrow>
          box_contains ((x0, y0, z0), (x1, y1, z1)) p \<and>
          \<not> list_ex (\<lambda>b. placed_contains (brush_cylinder b) p) (subtracted m)
      | _ \<Rightarrow> False)"

definition block_contains :: "rhino_block \<Rightarrow> point \<Rightarrow> bool" where
  "block_contains b p =
     (box_contains (corner_bounds (base_id b)) p \<and>
      \<not> list_ex (\<lambda>c. placed_contains (rhino_cylinder_placed c) p) (cutters b))"

text \<open>The hole levels of a block: the distinct positions along the long axis at which a
  through-hole is cut.\<close>

definition hole_levels :: "solid \<Rightarrow> jsnum list" where
  "hole_levels m =
     remdups (map (\<lambda>b. fst (snd (position b)))
                (filter (\<lambda>b. brush_family (name b) = ThroughHole) (subtracted m)))"

definition script_hole_levels :: "rhino_block \<Rightarrow> rat list" where
  "script_hole_levels b =
     remdups (map (\<lambda>c. snd (snd (centre c)))
                (filter (\<lambda>c. script_family (cutter c) = ThroughHole) (cutters b)))"

text \<open>The entries that the specification keeps in the batch list: the numbers that are
  positive integers.\<close>

definition positive_integer :: "jsnum \<Rightarrow> bool" where
  "positive_integer x = (case x of Num q \<Rightarrow> 0 < q \<and> q = of_int \<lfloor>q\<rfloor> | _ \<Rightarrow> False)"

text \<open>A string with no number at its start: after white space and a sign it is empty, or
  its first character is neither a digit nor a point nor the \<^verbatim>\<open>I\<close> of \<^verbatim>\<open>Infinity\<close>.\<close>

definition non_numeric :: "jsstring \<Rightarrow> bool" where
  "non_numeric v =
     (case snd (strip_sign (dropWhile is_space v)) of
        [] \<Rightarrow> True
      | c # _ \<Rightarrow> \<not> is_digit 10 c \<and> c \<noteq> of_char CHR ''.'' \<and> c \<noteq> of_char CHR ''I'')"

section \<open>Closed forms of the two generators\<close>

text \<open>
  The solid that \<open>generateModel\<close> builds for one entry, and the block that the script
  builds for one call of \<open>create_block\<close>, written as plain lists; the lemmas of the next
  sections prove that the generators compute them.
\<close>

definition loop_count :: "jsnum \<Rightarrow> nat" where
  "loop_count holes = (case holes of Num q \<Rightarrow> nat \<lceil>q\<rceil> | _ \<Rightarrow> 0)"

definition level_cutters ::
  "jsnum \<Rightarrow> cylinder_geometry \<Rightarrow> jsnum \<Rightarrow> jsnum \<Rightarrow> jsnum \<Rightarrow> nat \<Rightarrow> brush list" where
  "level_cutters d g x bh sgo i =
     (let yPos = js_add (js_add (js_div (js_neg bh) (Num 2)) FIRST_HOLE_OFFSET)
                        (js_mul (Num (of_nat i)) HOLE_STEP)
      in [mk_brush xBrush g (Zero, Zero, HalfPi) (x, yPos, Num 0),
          mk_brush zBrush g (HalfPi, Zero, Zero) (x, yPos, Num 0)]
         @ (if js_gt d (Num 0) then
              [mk_brush fG g (Zero, Zero, HalfPi) (x, yPos, sgo),
               mk_brush bG g (Zero, Zero, HalfPi) (x, yPos, js_neg sgo),
               mk_brush rG g (HalfPi, Zero, Zero) (js_add x sgo, yPos, Num 0),
               mk_brush lG g (HalfPi, Zero, Zero) (js_sub x sgo, yPos, Num 0)]
            else []))"

definition top_bottom_cutters :: "jsnum \<Rightarrow> cylinder_geometry \<Rightarrow> jsnum \<Rightarrow> jsnum \<Rightarrow> brush list" where
  "top_bottom_cutters d g x tbo =
     (if js_gt d (Num 0) then
        [mk_brush topX g (Zero, Zero, HalfPi) (x, tbo, Num 0),
         mk_brush topZ g (HalfPi, Zero, Zero) (x, tbo, Num 0),
         mk_brush botX g (Zero, Zero, HalfPi) (x, js_neg tbo, Num 0),
         mk_brush botZ g (HalfPi, Zero, Zero) (x, js_neg tbo, Num 0)]
      else [])"

definition mesh_of :: "jsnum \<Rightarrow> jsnum \<Rightarrow> jsnum \<Rightarrow> nat \<Rightarrow> solid" where
  "mesh_of r d holes index =
     (let bh = js_mul holes HEIGHT_PER_HOLE;
          x = js_mul (Num (of_nat index)) BATCH_SPACING;
          g = \<lparr>radiusTop = r, radiusBottom = r, cyl_height = Num 80, radialSegments = SEGMENTS\<rparr>;
          sgo = js_add (js_sub (js_div BOX_WIDTH (Num 2)) d) r;
          tbo = js_add (js_sub (js_div bh (Num 2)) d) r
      in \<lparr>box = \<lparr>box_width = BOX_WIDTH, box_height = bh, box_depth = BOX_DEPTH\<rparr>,
          box_position = (x, Num 0, Num 0),
          subtracted =
            mk_brush vCylBrush
              \<lparr>radiusTop = r, radiusBottom = r, cyl_height = js_add bh (Num 20),
               radialSegments = SEGMENTS\<rparr> (Zero, Zero, Zero) (x, Num 0, Num 0)
            # concat (map (level_cutters d g x bh sgo) [0..<loop_count holes])
            @ top_bottom_cutters d g x tbo\<rparr>)"

definition script_level_cutters :: "rat \<Rightarrow> rat \<Rightarrow> rat \<Rightarrow> rat \<Rightarrow> rat \<Rightarrow> nat \<Rightarrow> rhino_cylinder list" where
  "script_level_cutters r d cx height go i =
     (let z_pos = (- height / 2) + 10 + (of_nat i * 20)
      in [AddCylinder plane_x (cx - 40, 0, z_pos) (1, 0, 0) 80 r,
          AddCylinder plane_y (cx, - 40, z_pos) (0, 1, 0) 80 r]
         @ (if d > 0 then
              [AddCylinder plane_g1 (cx - 40, go, z_pos) (1, 0, 0) 80 r,
               AddCylinder plane_g2 (cx - 40, - go, z_pos) (1, 0, 0) 80 r,
               AddCylinder plane_g3 (cx + go, - 40, z_pos) (0, 1, 0) 80 r,
               AddCylinder plane_g4 (cx - go, - 40, z_pos) (0, 1, 0) 80 r]
            else []))"

definition script_top_bottom_cutters :: "rat \<Rightarrow> rat \<Rightarrow> rat \<Rightarrow> rat \<Rightarrow> rhino_cylinder list" where
  "script_top_bottom_cutters r d cx height =
     (if d > 0 then
        (let tb = height / 2 - d + r
         in [AddCylinder plane_tx (cx - 40, 0, tb) (1, 0, 0) 80 r,
             AddCylinder plane_ty (cx, - 40, tb) (0, 1, 0) 80 r,
             AddCylinder plane_bx (cx - 40, 0, - tb) (1, 0, 0) 80 r,
             AddCylinder plane_by (cx, - 40, - tb) (0, 1, 0) 80 r])
      else [])"

definition script_block_of :: "rat \<Rightarrow> rat \<Rightarrow> nat \<Rightarrow> rat \<Rightarrow> rhino_block" where
  "script_block_of r d n cx =
     (let height = of_nat n * 20
      in \<lparr>base_id =
            [(cx - 10, - 10, - height / 2), (cx + 10, - 10, - height / 2),
             (cx + 10, 10, - height / 2), (cx - 10, 10, - height / 2),
             (cx - 10, - 10, height / 2), (cx + 10, - 10, height / 2),
             (cx + 10, 10, height / 2), (cx - 10, 10, height / 2)],
          cutters =
            AddCylinder cyl_v (cx, 0, - height / 2 - 50) (0, 0, 1) (height + 100) r
            # concat (map (script_level_cutters r d cx height (10 - d + r)) [0..<n])
            @ script_top_bottom_cutters r d cx height\<rparr>)"


text \<open>The geometry of the cross cutters (\<^verbatim>\<open>hCylGeo\<close>) for a finite radius.\<close>

definition hCyl :: "rat \<Rightarrow> cylinder_geometry" where
  "hCyl r = \<lparr>radiusTop = Num r, radiusBottom = Num r, cyl_height = Num 80,
            radialSegments = SEGMENTS\<rparr>"

section \<open>The mesh pipeline computes its closed form\<close>

lemma counter_lt: "(of_nat i < (q::rat)) = (i < nat \<lceil>q\<rceil>)"
proof -
  have "(of_nat i < q) = (of_int (int i) < q)" by simp
  also have "\<dots> = (int i < \<lceil>q\<rceil>)" by (simp only: less_ceiling_iff)
  also have "\<dots> = (i < nat \<lceil>q\<rceil>)" by (simp only: zless_nat_eq_int_zless)
  finally show ?thesis .
qed

lemma hole_loop_Num:
  "hole_loop body (Num q) i s = Some (fold body [i..<nat \<lceil>q\<rceil>] s)"
proof (induction "nat \<lceil>q\<rceil> - i" arbitrary: i s)
  case 0
  then have "\<not> i < nat \<lceil>q\<rceil>" by simp
  then have a: "\<not> js_lt (Num (of_nat i)) (Num q)" by (simp add: counter_lt)
  have b: "[i..<nat \<lceil>q\<rceil>] = []" using \<open>\<not> i < nat \<lceil>q\<rceil>\<close> by simp
  show ?case by (subst hole_loop.simps) (simp only: a b if_False fold_simps)
next
  case (Suc k)
  then have lt: "i < nat \<lceil>q\<rceil>" by simp
  then have a: "js_lt (Num (of_nat i)) (Num q)" by (simp add: counter_lt)
  have b: "[i..<nat \<lceil>q\<rceil>] = i # [Suc i..<nat \<lceil>q\<rceil>]" using lt by (rule upt_conv_Cons)
  have "k = nat \<lceil>q\<rceil> - Suc i" using Suc.hyps(2) by simp
  then have ih: "hole_loop body (Num q) (Suc i) (body i s) = Some (fold body [Suc i..<nat \<lceil>q\<rceil>] (body i s))"
    by (rule Suc.hyps(1))
  show ?case by (subst hole_loop.simps) (simp only: a b if_True ih fold_simps o_apply)
qed

lemma hole_loop_not_PInf:
  "holes \<noteq> PInf \<Longrightarrow> hole_loop body holes i s = Some (fold body [i..<loop_count holes] s)"
proof (cases holes)
  case (Num q) then show ?thesis by (simp add: hole_loop_Num loop_count_def)
next
  case NaN then show ?thesis by (subst hole_loop.simps) (simp add: loop_count_def)
next
  case NInf then show ?thesis by (subst hole_loop.simps) (simp add: loop_count_def)
qed simp

lemma hole_level_eq:
  "hole_level st g x bh sgo i s =
     s\<lparr>subtracted := subtracted s @ level_cutters (grooveDepth st) g x bh sgo i\<rparr>"
  by (simp add: hole_level_def level_cutters_def evaluate_SUBTRACTION_def Let_def)

lemma fold_hole_level:
  "fold (hole_level st g x bh sgo) is s =
     s\<lparr>subtracted := subtracted s @ concat (map (level_cutters (grooveDepth st) g x bh sgo) is)\<rparr>"
  by (induction "is" arbitrary: s) (simp_all add: hole_level_eq)

lemma top_bottom_grooves_eq:
  "top_bottom_grooves st g x tbo s =
     s\<lparr>subtracted := subtracted s @ top_bottom_cutters (grooveDepth st) g x tbo\<rparr>"
  by (simp add: top_bottom_grooves_def top_bottom_cutters_def evaluate_SUBTRACTION_def Let_def)

lemma make_block_eq:
  assumes "holes \<noteq> PInf"
    and "g = \<lparr>radiusTop = drillRadius st, radiusBottom = drillRadius st,
              cyl_height = Num 80, radialSegments = SEGMENTS\<rparr>"
  shows "make_block g holes index st =
     Some (st\<lparr>currentMeshes :=
             currentMeshes st @ [mesh_of (drillRadius st) (grooveDepth st) holes index]\<rparr>)"
  using assms
  by (simp add: make_block_def hole_loop_not_PInf fold_hole_level top_bottom_grooves_eq
      mesh_of_def evaluate_SUBTRACTION_def Let_def)


lemma forEach_make_block:
  assumes "PInf \<notin> set hs"
    and "g = \<lparr>radiusTop = drillRadius st, radiusBottom = drillRadius st,
              cyl_height = Num 80, radialSegments = SEGMENTS\<rparr>"
  shows "forEach (make_block g) hs k st =
     Some (st\<lparr>currentMeshes := currentMeshes st
             @ map (\<lambda>(i, h). mesh_of (drillRadius st) (grooveDepth st) h i) (enumerate k hs)\<rparr>)"
  using assms
proof (induction hs arbitrary: k st)
  case Nil
  then show ?case by simp
next
  case (Cons h hs)
  then have h: "h \<noteq> PInf" and hs: "PInf \<notin> set hs" by auto
  let ?st' = "st\<lparr>currentMeshes :=
             currentMeshes st @ [mesh_of (drillRadius st) (grooveDepth st) h k]\<rparr>"
  have step: "make_block g h k st = Some ?st'"
    using h Cons.prems(2) by (rule make_block_eq)
  have g': "g = \<lparr>radiusTop = drillRadius ?st', radiusBottom = drillRadius ?st',
              cyl_height = Num 80, radialSegments = SEGMENTS\<rparr>"
    using Cons.prems(2) by simp
  show ?case
    by (simp add: step Cons.IH[OF hs g'])
qed

lemma generateModel_eq:
  assumes "PInf \<notin> set (blocksToMake st)"
  shows "generateModel st =
     Some (st\<lparr>currentMeshes :=
             map (\<lambda>(i, h). mesh_of (drillRadius st) (grooveDepth st) h i)
               (enumerate 0 (blocksToMake st))\<rparr>)"
proof -
  let ?st = "st\<lparr>currentMeshes := []\<rparr>"
  have b: "blocksToMake ?st = blocksToMake st" by (simp add: blocksToMake_def)
  have "forEach (make_block \<lparr>radiusTop = drillRadius ?st, radiusBottom = drillRadius ?st,
              cyl_height = Num 80, radialSegments = SEGMENTS\<rparr>) (blocksToMake st) 0 ?st =
     Some (?st\<lparr>currentMeshes := currentMeshes ?st
             @ map (\<lambda>(i, h). mesh_of (drillRadius ?st) (grooveDepth ?st) h i)
                 (enumerate 0 (blocksToMake st))\<rparr>)"
    using assms by (intro forEach_make_block) simp_all
  then show ?thesis
    by (simp add: generateModel_def Let_def b)
qed

lemma map_enumerate_map:
  "map (\<lambda>(i, h). F h i) (enumerate k (map f xs)) = map (\<lambda>(i, x). F (f x) i) (enumerate k xs)"
  by (induction xs arbitrary: k) simp_all

lemma generateModel_counts:
  assumes "blocksToMake st = map (\<lambda>n. Num (of_nat n)) ns"
  shows "generateModel st =
     Some (st\<lparr>currentMeshes :=
             map (\<lambda>(i, n). mesh_of (drillRadius st) (grooveDepth st) (Num (of_nat n)) i)
               (enumerate 0 ns)\<rparr>)"
proof -
  have "PInf \<notin> set (blocksToMake st)" using assms by auto
  then show ?thesis
    by (simp add: generateModel_eq assms map_enumerate_map)
qed

text \<open>With \<^verbatim>\<open>Infinity\<close> as a hole count the loop over the holes does not end, and neither
  does \<open>generateModel\<close>.\<close>

lemma hole_loop_Some_finite:
  assumes "hole_loop body holes i s = Some y"
  shows "holes \<noteq> PInf"
  using assms
  by (rule hole_loop.raw_induct[where P = "\<lambda>_ holes _ _ _. holes \<noteq> PInf", rotated])
    (auto split: if_splits)

lemma hole_loop_PInf: "hole_loop body PInf i s = None"
  using hole_loop_Some_finite[of body PInf i s] by (cases "hole_loop body PInf i s") auto

lemma make_block_PInf: "make_block g PInf index st = None"
  by (simp add: make_block_def Let_def hole_loop_PInf)

lemma forEach_make_block_PInf:
  "PInf \<in> set hs \<Longrightarrow> forEach (make_block g) hs k st = None"
proof (induction hs arbitrary: k st)
  case Nil
  then show ?case by simp
next
  case (Cons h hs)
  show ?case
  proof (cases "make_block g h k st")
    case None
    then show ?thesis by simp
  next
    case (Some st')
    then have "h \<noteq> PInf" by (auto simp add: make_block_PInf)
    with Cons.prems have "PInf \<in> set hs" by simp
    then show ?thesis using Some Cons.IH by simp
  qed
qed

lemma generateModel_PInf:
  "PInf \<in> set (blocksToMake st) \<Longrightarrow> generateModel st = None"
proof -
  have "blocksToMake (st\<lparr>currentMeshes := []\<rparr>) = blocksToMake st"
    by (simp add: blocksToMake_def)
  moreover assume "PInf \<in> set (blocksToMake st)"
  ultimately have "PInf \<in> set (blocksToMake (st\<lparr>currentMeshes := []\<rparr>))"
    by (simp only:)
  then show ?thesis
    unfolding generateModel_def Let_def by (rule forEach_make_block_PInf)
qed

section \<open>The script computes its closed form\<close>

lemma py_bind_Inr: "py_bind (Inr v) f = f v"
  by (simp add: py_bind_def)

lemma py_literal_Num: "py_literal (Num q) = Inr q"
  by (simp add: py_literal_def)

lemma py_range_nat: "py_range (of_nat n) = Inr [0..<n]"
  by (simp add: py_range_def)

lemma script_level_eq:
  assumes "lit_level_guard sc = Num d"
  shows "script_level sc cx height 10 20 go 80 r i cs =
           Inr (cs @ script_level_cutters r d cx height go i)"
  using assms
  by (simp add: script_level_def script_level_cutters_def py_bind_Inr py_literal_Num Let_def)

lemma py_for_append:
  assumes "\<And>i cs. body i cs = Inr (cs @ f i)"
  shows "py_for body is cs = Inr (cs @ concat (map f is))"
  by (induction "is" arbitrary: cs) (simp_all add: assms py_bind_Inr)

lemma script_top_bottom_eq:
  assumes "lit_tb_guard sc = Num d" "lit_tb_depth sc = Num d" "lit_tb_radius sc = Num r"
  shows "script_top_bottom sc cx height 80 r cs =
           Inr (cs @ script_top_bottom_cutters r d cx height)"
  using assms
  by (simp add: script_top_bottom_def script_top_bottom_cutters_def py_bind_Inr py_literal_Num
      Let_def)

lemma groove_offset_Num:
  "js_add (js_sub (js_div BOX_WIDTH (Num 2)) (Num d)) (Num r) = Num (10 - d + r)"
  by (simp add: BOX_WIDTH_def js_sub_def)

lemma create_block_eq:
  assumes "drillRadius st = Num r" "grooveDepth st = Num d"
  shows "create_block (downloadRhinoScript st) (of_nat n) cx = Inr (script_block_of r d n cx)"
proof -
  let ?sc = "downloadRhinoScript st"
  have lits: "lit_width ?sc = Num 20" "lit_depth ?sc = Num 20" "lit_height_per_hole ?sc = Num 20"
    "lit_radius ?sc = Num r" "lit_offset ?sc = Num 10" "lit_step_size ?sc = Num 20"
    "lit_groove_offset ?sc = Num (10 - d + r)"
    using assms
    by (simp_all add: downloadRhinoScript_def Let_def BOX_WIDTH_def BOX_DEPTH_def
        HEIGHT_PER_HOLE_def FIRST_HOLE_OFFSET_def HOLE_STEP_def js_sub_def)
  have guards: "lit_level_guard ?sc = Num d" "lit_tb_guard ?sc = Num d"
    "lit_tb_depth ?sc = Num d" "lit_tb_radius ?sc = Num r"
    using assms by (simp_all add: downloadRhinoScript_def Let_def)
  have loop: "\<And>cs h. py_for (script_level ?sc cx h 10 20 (10 - d + r) 80 r) [0..<n] cs =
      Inr (cs @ concat (map (script_level_cutters r d cx h (10 - d + r)) [0..<n]))"
    by (rule py_for_append) (rule script_level_eq[OF guards(1)])
  show ?thesis
    unfolding create_block_def
    by (simp only: lits py_literal_Num py_bind_Inr Let_def py_range_nat loop
        script_top_bottom_eq[OF guards(2,3,4)])
       (simp add: script_block_of_def Let_def)
qed

lemma lit_blocks_eq: "lit_blocks (downloadRhinoScript st) = blocksToMake st"
  by (simp add: downloadRhinoScript_def blocksToMake_def Let_def)

lemma py_list_literals:
  "py_list (map py_literal (map (\<lambda>n. Num (of_nat n)) ns)) = Inr (map of_nat ns)"
  by (induction ns) (simp_all add: py_literal_Num py_bind_Inr)

lemma main_loop_eq:
  assumes "drillRadius st = Num r" "grooveDepth st = Num d"
  shows "main_loop (downloadRhinoScript st) 40 (enumerate k (map of_nat ns)) =
     Inr (map (\<lambda>(i, n). script_block_of r d n (of_nat i * 40)) (enumerate k ns))"
  by (induction ns arbitrary: k) (simp_all add: create_block_eq[OF assms] py_bind_Inr)

lemma main_eq:
  assumes "blocksToMake st = map (\<lambda>n. Num (of_nat n)) ns"
    and "drillRadius st = Num r" "grooveDepth st = Num d"
  shows "main (downloadRhinoScript st) =
     Inr (map (\<lambda>(i, n). script_block_of r d n (of_nat i * 40)) (enumerate 0 ns))"
proof -
  have "lit_spacing (downloadRhinoScript st) = Num 40"
    by (simp add: downloadRhinoScript_def Let_def BATCH_SPACING_def)
  moreover have "py_list (map py_literal (lit_blocks (downloadRhinoScript st))) =
      Inr (map of_nat ns)"
    by (simp only: lit_blocks_eq assms(1) py_list_literals)
  ultimately show ?thesis
    by (simp add: main_def py_bind_Inr py_literal_Num main_loop_eq[OF assms(2,3)])
qed

text \<open>The block at an index of the two closed forms.\<close>

lemma nth_meshes:
  "k < length ns \<Longrightarrow>
   map (\<lambda>(i, n). mesh_of r d (Num (of_nat n)) i) (enumerate 0 ns) ! k =
     mesh_of r d (Num (of_nat (ns ! k))) k"
  by (simp add: nth_enumerate_eq)

lemma nth_blocks:
  "k < length ns \<Longrightarrow>
   map (\<lambda>(i, n). script_block_of r d n (of_nat i * 40)) (enumerate 0 ns) ! k =
     script_block_of r d (ns ! k) (of_nat k * 40)"
  by (simp add: nth_enumerate_eq)

section \<open>Counting the cutters of a block\<close>

lemma loop_count_nat: "loop_count (Num (of_nat n)) = n"
  by (simp add: loop_count_def)

lemma filter_concat_const:
  assumes "\<And>i. length (filter P (f i)) = c"
  shows "length (filter P (concat (map f is))) = c * length is"
  by (induction "is") (simp_all add: assms)

lemma count_level_cutters:
  "count_family f (level_cutters d g x bh sgo i) =
     (case f of VerticalHole \<Rightarrow> 0 | ThroughHole \<Rightarrow> 2
      | SideGroove \<Rightarrow> (if js_gt d (Num 0) then 4 else 0) | TopBottomGroove \<Rightarrow> 0)"
  by (cases f) (simp_all add: count_family_def level_cutters_def mk_brush_def Let_def)

lemma count_top_bottom_cutters:
  "count_family f (top_bottom_cutters d g x tbo) =
     (case f of TopBottomGroove \<Rightarrow> (if js_gt d (Num 0) then 4 else 0) | _ \<Rightarrow> 0)"
  by (cases f) (simp_all add: count_family_def top_bottom_cutters_def mk_brush_def)

lemma count_family_Cons:
  "count_family f (b # bs) = (if brush_family (name b) = f then 1 else 0) + count_family f bs"
  by (simp add: count_family_def)

lemma count_family_append:
  "count_family f (bs @ cs) = count_family f bs + count_family f cs"
  by (simp add: count_family_def)

lemma count_family_concat:
  assumes "\<And>i. count_family f (g i) = c"
  shows "count_family f (concat (map g is)) = c * length is"
  using filter_concat_const[of "\<lambda>b. brush_family (name b) = f" g c "is"] assms
  by (simp add: count_family_def)

lemma count_mesh_of:
  "count_family f (subtracted (mesh_of r d (Num (of_nat n)) k)) =
     (case f of VerticalHole \<Rightarrow> 1 | ThroughHole \<Rightarrow> 2 * n
      | SideGroove \<Rightarrow> (if js_gt d (Num 0) then 4 * n else 0)
      | TopBottomGroove \<Rightarrow> (if js_gt d (Num 0) then 4 else 0))"
  by (cases f)
    (simp_all add: mesh_of_def Let_def loop_count_nat count_family_Cons count_family_append
      count_family_concat[OF count_level_cutters] count_top_bottom_cutters mk_brush_def)

lemma length_mesh_of:
  "length (subtracted (mesh_of r d (Num (of_nat n)) k)) =
     1 + 2 * n + (if js_gt d (Num 0) then 4 * n + 4 else 0)"
proof -
  have "length (concat (map (level_cutters d g x bh sgo) [0..<n])) =
      (if js_gt d (Num 0) then 6 else 2) * n" for g x bh sgo
    using filter_concat_const[of "\<lambda>_. True" "level_cutters d g x bh sgo"
        "if js_gt d (Num 0) then 6 else 2" "[0..<n]"]
    by (simp add: level_cutters_def Let_def)
  then show ?thesis
    by (simp add: mesh_of_def Let_def loop_count_nat top_bottom_cutters_def)
qed

lemma box_height_mesh_of:
  "box_height (box (mesh_of r d (Num (of_nat n)) k)) = Num (of_nat n * 20)"
  by (simp add: mesh_of_def Let_def HEIGHT_PER_HOLE_def)

lemma through_hole_levels:
  "map (\<lambda>b. fst (snd (position b)))
     (filter (\<lambda>b. brush_family (name b) = ThroughHole) (level_cutters d g x (Num h) sgo i)) =
   [Num (- h / 2 + 10 + of_nat i * 20), Num (- h / 2 + 10 + of_nat i * 20)]"
  by (simp add: level_cutters_def Let_def mk_brush_def FIRST_HOLE_OFFSET_def HOLE_STEP_def)

lemma through_top_bottom:
  "filter (\<lambda>b. brush_family (name b) = ThroughHole) (top_bottom_cutters d g x tbo) = []"
  by (simp add: top_bottom_cutters_def mk_brush_def)

lemma remdups_pairs:
  assumes "distinct (map f is)"
  shows "remdups (concat (map (\<lambda>i. [f i, f i]) is)) = map f is"
  using assms
proof (induction "is")
  case Nil
  then show ?case by simp
next
  case (Cons a "is")
  have "set (concat (map (\<lambda>i. [f i, f i]) is)) = f ` set is" by auto
  with Cons show ?case by simp
qed

lemma through_levels_concat:
  "map (\<lambda>b. fst (snd (position b)))
     (filter (\<lambda>b. brush_family (name b) = ThroughHole)
        (concat (map (level_cutters d g x (Num h) sgo) is))) =
   concat (map (\<lambda>i. [Num (- h / 2 + 10 + of_nat i * 20), Num (- h / 2 + 10 + of_nat i * 20)]) is)"
  by (induction "is") (simp_all add: through_hole_levels)

lemma hole_levels_mesh_of:
  "hole_levels (mesh_of r d (Num (of_nat n)) k) =
     map (\<lambda>i. Num (- (of_nat n * 20) / 2 + 10 + of_nat i * 20)) [0..<n]"
proof -
  have "distinct (map (\<lambda>i. Num (- (of_nat n * 20) / 2 + 10 + of_nat i * 20)) [0..<n])"
    by (simp add: distinct_map inj_on_def)
  then show ?thesis
    by (simp add: hole_levels_def mesh_of_def Let_def loop_count_nat HEIGHT_PER_HOLE_def
        mk_brush_def through_levels_concat through_top_bottom remdups_pairs)
qed

text \<open>
  Claim C1. Whenever the entries to generate are hole counts \<open>n\<close>, whatever the radius and
  the groove depth \<open>d\<close>, \<open>generateModel\<close> returns one solid for each entry, with a box of
  height \<open>20 n\<close>, from which it subtracts exactly 1 vertical cylinder and \<open>2 n\<close>
  through-cylinders, at the \<open>n\<close> distinct levels \<open>- 20 n / 2 + 10 + 20 i\<close> of the long
  axis, and, exactly when \<open>d > 0\<close> holds in JavaScript, \<open>4 n\<close> side-groove cylinders and 4
  top and bottom groove cylinders: \<open>1 + 2 n\<close> cutters, plus \<open>4 n + 4\<close> when \<open>d > 0\<close>.
\<close>

theorem generateModel_cutter_count:
  assumes "blocksToMake st = map (\<lambda>n. Num (of_nat n)) ns"
  shows "\<exists>ms. generateModel st = Some (st\<lparr>currentMeshes := ms\<rparr>) \<and> length ms = length ns \<and>
    (\<forall>k < length ns.
       box_height (box (ms ! k)) = Num (of_nat (ns ! k) * 20) \<and>
       count_family VerticalHole (subtracted (ms ! k)) = 1 \<and>
       count_family ThroughHole (subtracted (ms ! k)) = 2 * (ns ! k) \<and>
       hole_levels (ms ! k) =
         map (\<lambda>i. Num (- (of_nat (ns ! k) * 20) / 2 + 10 + of_nat i * 20)) [0..<ns ! k] \<and>
       count_family SideGroove (subtracted (ms ! k)) =
         (if js_gt (grooveDepth st) (Num 0) then 4 * (ns ! k) else 0) \<and>
       count_family TopBottomGroove (subtracted (ms ! k)) =
         (if js_gt (grooveDepth st) (Num 0) then 4 else 0) \<and>
       length (subtracted (ms ! k)) =
         1 + 2 * (ns ! k) + (if js_gt (grooveDepth st) (Num 0) then 4 * (ns ! k) + 4 else 0))"
proof -
  let ?ms = "map (\<lambda>(i, n). mesh_of (drillRadius st) (grooveDepth st) (Num (of_nat n)) i)
               (enumerate 0 ns)"
  have "generateModel st = Some (st\<lparr>currentMeshes := ?ms\<rparr>)"
    using assms by (rule generateModel_counts)
  moreover have "length ?ms = length ns" by simp
  moreover have "\<forall>k < length ns.
       box_height (box (?ms ! k)) = Num (of_nat (ns ! k) * 20) \<and>
       count_family VerticalHole (subtracted (?ms ! k)) = 1 \<and>
       count_family ThroughHole (subtracted (?ms ! k)) = 2 * (ns ! k) \<and>
       hole_levels (?ms ! k) =
         map (\<lambda>i. Num (- (of_nat (ns ! k) * 20) / 2 + 10 + of_nat i * 20)) [0..<ns ! k] \<and>
       count_family SideGroove (subtracted (?ms ! k)) =
         (if js_gt (grooveDepth st) (Num 0) then 4 * (ns ! k) else 0) \<and>
       count_family TopBottomGroove (subtracted (?ms ! k)) =
         (if js_gt (grooveDepth st) (Num 0) then 4 else 0) \<and>
       length (subtracted (?ms ! k)) =
         1 + 2 * (ns ! k) + (if js_gt (grooveDepth st) (Num 0) then 4 * (ns ! k) + 4 else 0)"
  proof (intro allI impI)
    fix k assume k: "k < length ns"
    show "box_height (box (?ms ! k)) = Num (of_nat (ns ! k) * 20) \<and>
       count_family VerticalHole (subtracted (?ms ! k)) = 1 \<and>
       count_family ThroughHole (subtracted (?ms ! k)) = 2 * (ns ! k) \<and>
       hole_levels (?ms ! k) =
         map (\<lambda>i. Num (- (of_nat (ns ! k) * 20) / 2 + 10 + of_nat i * 20)) [0..<ns ! k] \<and>
       count_family SideGroove (subtracted (?ms ! k)) =
         (if js_gt (grooveDepth st) (Num 0) then 4 * (ns ! k) else 0) \<and>
       count_family TopBottomGroove (subtracted (?ms ! k)) =
         (if js_gt (grooveDepth st) (Num 0) then 4 else 0) \<and>
       length (subtracted (?ms ! k)) =
         1 + 2 * (ns ! k) + (if js_gt (grooveDepth st) (Num 0) then 4 * (ns ! k) + 4 else 0)"
      unfolding nth_meshes[OF k]
      by (simp add: box_height_mesh_of count_mesh_of length_mesh_of hole_levels_mesh_of)
  qed
  ultimately show ?thesis by blast
qed

text \<open>
  The scenario of the specification: single mode, 5 holes, radius 4.0, groove depth 0.5
  (the initial parameters) give one box of height 100 and 1 + 10 + 20 + 4 = 35 cutters.
\<close>

theorem generateModel_cutter_count_single_5:
  "blocksToMake initial_state = map (\<lambda>n. Num (of_nat n)) [5] \<and>
   (\<exists>m. generateModel initial_state = Some (initial_state\<lparr>currentMeshes := [m]\<rparr>) \<and>
      box_height (box m) = Num 100 \<and>
      count_family VerticalHole (subtracted m) = 1 \<and>
      count_family ThroughHole (subtracted m) = 10 \<and>
      hole_levels m = [Num (- 40), Num (- 20), Num 0, Num 20, Num 40] \<and>
      count_family SideGroove (subtracted m) = 20 \<and>
      count_family TopBottomGroove (subtracted m) = 4 \<and>
      length (subtracted m) = 35)"
proof -
  have h: "blocksToMake initial_state = map (\<lambda>n. Num (of_nat n)) [5]"
    by (simp add: blocksToMake_def initial_state_def)
  have d: "js_gt (grooveDepth initial_state) (Num 0)"
    by (simp add: initial_state_def js_gt_def)
  have k0: "0 < length [5::nat]" by simp
  show ?thesis
    using generateModel_cutter_count[OF h]
    apply (elim exE conjE)
    subgoal premises prems for ms
    proof -
      from prems(2) obtain m where m: "ms = [m]" by (cases ms) auto
      note at0 = prems(3)[rule_format, OF k0, unfolded m]
      have "box_height (box m) = Num 100 \<and>
          count_family VerticalHole (subtracted m) = 1 \<and>
          count_family ThroughHole (subtracted m) = 10 \<and>
          hole_levels m = [Num (- 40), Num (- 20), Num 0, Num 20, Num 40] \<and>
          count_family SideGroove (subtracted m) = 20 \<and>
          count_family TopBottomGroove (subtracted m) = 4 \<and>
          length (subtracted m) = 35"
        using at0 d by (simp add: upt_rec)
      with prems(1) h show ?thesis unfolding m by blast
    qed
    done
qed

section \<open>The height of the box\<close>

lemma corner_bounds_script_block:
  "corner_bounds (base_id (script_block_of r d n cx)) =
     ((cx - 10, - 10, - (of_nat n * 20 / 2)), (cx + 10, 10, of_nat n * 20 / 2))"
  by (simp add: script_block_of_def Let_def corner_bounds_def min_def max_def)

lemma script_box_height_block: "script_box_height (script_block_of r d n cx) = of_nat n * 20"
  by (simp add: script_box_height_def corner_bounds_script_block)

lemma script_box_centre_block: "script_box_centre (script_block_of r d n cx) = (cx, 0, 0)"
  by (simp add: script_box_centre_def corner_bounds_script_block)

text \<open>
  Claim C3. For every hole count \<open>n\<close>, the box of the generated solid has height
  \<open>n * HEIGHT_PER_HOLE\<close>, which is \<open>20 n\<close>; and, for every finite radius and depth, the
  box that the emitted script builds for that entry extends by \<open>20 n\<close> along its long
  axis.
\<close>

theorem box_height_is_holes_times_20:
  assumes "blocksToMake st = map (\<lambda>n. Num (of_nat n)) ns"
  shows "(\<exists>ms. generateModel st = Some (st\<lparr>currentMeshes := ms\<rparr>) \<and> length ms = length ns \<and>
            (\<forall>k < length ns.
               box_height (box (ms ! k)) = js_mul (Num (of_nat (ns ! k))) HEIGHT_PER_HOLE \<and>
               box_height (box (ms ! k)) = Num (of_nat (ns ! k) * 20))) \<and>
         (\<forall>r d. drillRadius st = Num r \<and> grooveDepth st = Num d \<longrightarrow>
            (\<exists>bs. main (downloadRhinoScript st) = Inr bs \<and> length bs = length ns \<and>
               (\<forall>k < length ns. script_box_height (bs ! k) = of_nat (ns ! k) * 20)))"
proof (intro conjI allI impI)
  let ?ms = "map (\<lambda>(i, n). mesh_of (drillRadius st) (grooveDepth st) (Num (of_nat n)) i)
               (enumerate 0 ns)"
  have "generateModel st = Some (st\<lparr>currentMeshes := ?ms\<rparr>)"
    using assms by (rule generateModel_counts)
  moreover have "length ?ms = length ns" by simp
  moreover have "\<forall>k < length ns.
       box_height (box (?ms ! k)) = js_mul (Num (of_nat (ns ! k))) HEIGHT_PER_HOLE \<and>
       box_height (box (?ms ! k)) = Num (of_nat (ns ! k) * 20)"
  proof (intro allI impI)
    fix k assume k: "k < length ns"
    show "box_height (box (?ms ! k)) = js_mul (Num (of_nat (ns ! k))) HEIGHT_PER_HOLE \<and>
       box_height (box (?ms ! k)) = Num (of_nat (ns ! k) * 20)"
      unfolding nth_meshes[OF k] by (simp add: box_height_mesh_of HEIGHT_PER_HOLE_def)
  qed
  ultimately show "\<exists>ms. generateModel st = Some (st\<lparr>currentMeshes := ms\<rparr>) \<and>
      length ms = length ns \<and>
      (\<forall>k < length ns.
         box_height (box (ms ! k)) = js_mul (Num (of_nat (ns ! k))) HEIGHT_PER_HOLE \<and>
         box_height (box (ms ! k)) = Num (of_nat (ns ! k) * 20))"
    by blast
next
  fix r d
  assume fin: "drillRadius st = Num r \<and> grooveDepth st = Num d"
  let ?bs = "map (\<lambda>(i, n). script_block_of r d n (of_nat i * 40)) (enumerate 0 ns)"
  have "main (downloadRhinoScript st) = Inr ?bs"
    using assms fin by (simp add: main_eq)
  moreover have "length ?bs = length ns" by simp
  moreover have "\<forall>k < length ns. script_box_height (?bs ! k) = of_nat (ns ! k) * 20"
  proof (intro allI impI)
    fix k assume k: "k < length ns"
    show "script_box_height (?bs ! k) = of_nat (ns ! k) * 20"
      unfolding nth_blocks[OF k] by (rule script_box_height_block)
  qed
  ultimately show "\<exists>bs. main (downloadRhinoScript st) = Inr bs \<and> length bs = length ns \<and>
      (\<forall>k < length ns. script_box_height (bs ! k) = of_nat (ns ! k) * 20)"
    by blast
qed

text \<open>Seven holes in single mode: a box of height 140 in the mesh and in the script.\<close>

theorem box_height_is_holes_times_20_seven_holes:
  "blocksToMake (initial_state\<lparr>numHoles := Num 7\<rparr>) = map (\<lambda>n. Num (of_nat n)) [7] \<and>
   (\<exists>m. generateModel (initial_state\<lparr>numHoles := Num 7\<rparr>) =
          Some (initial_state\<lparr>numHoles := Num 7, currentMeshes := [m]\<rparr>) \<and>
        box_height (box m) = Num 140) \<and>
   (\<exists>b. main (downloadRhinoScript (initial_state\<lparr>numHoles := Num 7\<rparr>)) = Inr [b] \<and>
        script_box_height b = 140)"
proof -
  let ?st = "initial_state\<lparr>numHoles := Num 7\<rparr>"
  have h: "blocksToMake ?st = map (\<lambda>n. Num (of_nat n)) [7]"
    by (simp add: blocksToMake_def initial_state_def)
  have rd: "drillRadius ?st = Num 4 \<and> grooveDepth ?st = Num (1 / 2)"
    by (simp add: initial_state_def)
  note inst = box_height_is_holes_times_20[OF h]
  from conjunct1[OF inst] obtain ms where
    ms: "generateModel ?st = Some (?st\<lparr>currentMeshes := ms\<rparr>)"
    "length ms = 1" "box_height (box (ms ! 0)) = Num 140"
    by auto
  from conjunct2[OF inst, rule_format, OF rd] obtain bs where
    bs: "main (downloadRhinoScript ?st) = Inr bs" "length bs = 1"
    "script_box_height (bs ! 0) = 140"
    by auto
  from ms(2) obtain m where m: "ms = [m]" by (cases ms) auto
  from bs(2) obtain b where b: "bs = [b]" by (cases bs) auto
  show ?thesis using h ms bs unfolding m b by auto
qed

section \<open>The placement of the grooves\<close>

lemma currentMeshes_update_inject:
  "st\<lparr>currentMeshes := a\<rparr> = st\<lparr>currentMeshes := b\<rparr> \<Longrightarrow> a = b"
  by (drule arg_cong[where f = currentMeshes]) simp

lemma box_position_mesh_of:
  "box_position (mesh_of r d h k) = (Num (of_nat k * 40), Num 0, Num 0)"
  by (simp add: mesh_of_def Let_def BATCH_SPACING_def)

lemma mesh_groove_positions:
  assumes "b \<in> set (subtracted (mesh_of (Num r) (Num d) (Num (of_nat n)) k))"
  shows "(name b = fG \<longrightarrow> (\<exists>y. position b = (Num (of_nat k * 40), y, Num (20 / 2 - d + r)))) \<and>
         (name b = bG \<longrightarrow> (\<exists>y. position b = (Num (of_nat k * 40), y, Num (- (20 / 2 - d + r))))) \<and>
         (name b = rG \<longrightarrow> (\<exists>y. position b = (Num (of_nat k * 40 + (20 / 2 - d + r)), y, Num 0))) \<and>
         (name b = lG \<longrightarrow> (\<exists>y. position b = (Num (of_nat k * 40 - (20 / 2 - d + r)), y, Num 0))) \<and>
         (name b = topX \<or> name b = topZ \<longrightarrow>
            position b = (Num (of_nat k * 40), Num (of_nat n * 20 / 2 - d + r), Num 0)) \<and>
         (name b = botX \<or> name b = botZ \<longrightarrow>
            position b = (Num (of_nat k * 40), Num (- (of_nat n * 20 / 2 - d + r)), Num 0))"
  using assms
  by (auto simp add: mesh_of_def Let_def level_cutters_def top_bottom_cutters_def mk_brush_def
      BOX_WIDTH_def BATCH_SPACING_def HEIGHT_PER_HOLE_def js_sub_def split: if_splits)

lemma script_groove_centres:
  assumes "c \<in> set (cutters (script_block_of r d n cx))"
  shows "(cutter c = plane_g1 \<longrightarrow> (\<exists>z. centre c = (cx, 20 / 2 - d + r, z))) \<and>
         (cutter c = plane_g2 \<longrightarrow> (\<exists>z. centre c = (cx, - (20 / 2 - d + r), z))) \<and>
         (cutter c = plane_g3 \<longrightarrow> (\<exists>z. centre c = (cx + (20 / 2 - d + r), 0, z))) \<and>
         (cutter c = plane_g4 \<longrightarrow> (\<exists>z. centre c = (cx - (20 / 2 - d + r), 0, z))) \<and>
         (cutter c = plane_tx \<or> cutter c = plane_ty \<longrightarrow>
            centre c = (cx, 0, of_nat n * 20 / 2 - d + r)) \<and>
         (cutter c = plane_bx \<or> cutter c = plane_by \<longrightarrow>
            centre c = (cx, 0, - (of_nat n * 20 / 2 - d + r)))"
  using assms
  by (auto simp add: script_block_of_def Let_def script_level_cutters_def
      script_top_bottom_cutters_def AddCylinder_def centre_def split: if_splits)

text \<open>
  Claim C4. For finite radius \<open>r\<close> and depth \<open>d\<close>, in the block at index \<open>k\<close> (centred at
  \<open>40 k\<close> on the X axis) every side-groove cylinder is centred at the distance
  \<open>20 / 2 - d + r\<close> from the block centre along one of the four lateral directions,
  and every top or bottom groove cylinder is centred on the long axis at plus or minus
  \<open>(20 n / 2 - d + r)\<close>, \<open>20 n\<close> being the height of the box; in the mesh (long axis Y,
  lateral axes Z and X) and in the script (long axis Z, lateral axes Y and X).
\<close>

theorem groove_offsets:
  assumes "blocksToMake st = map (\<lambda>n. Num (of_nat n)) ns"
    and "drillRadius st = Num r" and "grooveDepth st = Num d"
  shows "\<exists>ms bs. generateModel st = Some (st\<lparr>currentMeshes := ms\<rparr>) \<and>
    main (downloadRhinoScript st) = Inr bs \<and> length ms = length ns \<and> length bs = length ns \<and>
    (\<forall>k < length ns.
       box_position (ms ! k) = (Num (of_nat k * 40), Num 0, Num 0) \<and>
       script_box_centre (bs ! k) = (of_nat k * 40, 0, 0) \<and>
       (\<forall>b \<in> set (subtracted (ms ! k)).
            (name b = fG \<longrightarrow> (\<exists>y. position b = (Num (of_nat k * 40), y, Num (20 / 2 - d + r)))) \<and>
            (name b = bG \<longrightarrow>
               (\<exists>y. position b = (Num (of_nat k * 40), y, Num (- (20 / 2 - d + r))))) \<and>
            (name b = rG \<longrightarrow>
               (\<exists>y. position b = (Num (of_nat k * 40 + (20 / 2 - d + r)), y, Num 0))) \<and>
            (name b = lG \<longrightarrow>
               (\<exists>y. position b = (Num (of_nat k * 40 - (20 / 2 - d + r)), y, Num 0))) \<and>
            (name b = topX \<or> name b = topZ \<longrightarrow>
               position b = (Num (of_nat k * 40), Num (of_nat (ns ! k) * 20 / 2 - d + r), Num 0)) \<and>
            (name b = botX \<or> name b = botZ \<longrightarrow>
               position b =
                 (Num (of_nat k * 40), Num (- (of_nat (ns ! k) * 20 / 2 - d + r)), Num 0))) \<and>
       (\<forall>c \<in> set (cutters (bs ! k)).
            (cutter c = plane_g1 \<longrightarrow> (\<exists>z. centre c = (of_nat k * 40, 20 / 2 - d + r, z))) \<and>
            (cutter c = plane_g2 \<longrightarrow> (\<exists>z. centre c = (of_nat k * 40, - (20 / 2 - d + r), z))) \<and>
            (cutter c = plane_g3 \<longrightarrow> (\<exists>z. centre c = (of_nat k * 40 + (20 / 2 - d + r), 0, z))) \<and>
            (cutter c = plane_g4 \<longrightarrow> (\<exists>z. centre c = (of_nat k * 40 - (20 / 2 - d + r), 0, z))) \<and>
            (cutter c = plane_tx \<or> cutter c = plane_ty \<longrightarrow>
               centre c = (of_nat k * 40, 0, of_nat (ns ! k) * 20 / 2 - d + r)) \<and>
            (cutter c = plane_bx \<or> cutter c = plane_by \<longrightarrow>
               centre c = (of_nat k * 40, 0, - (of_nat (ns ! k) * 20 / 2 - d + r)))))"
proof -
  let ?ms = "map (\<lambda>(i, n). mesh_of (Num r) (Num d) (Num (of_nat n)) i) (enumerate 0 ns)"
  let ?bs = "map (\<lambda>(i, n). script_block_of r d n (of_nat i * 40)) (enumerate 0 ns)"
  have "generateModel st = Some (st\<lparr>currentMeshes := ?ms\<rparr>)"
    using generateModel_counts[OF assms(1)] assms(2,3) by simp
  moreover have "main (downloadRhinoScript st) = Inr ?bs"
    using assms by (rule main_eq)
  moreover have "length ?ms = length ns" "length ?bs = length ns" by simp_all
  moreover have "(\<forall>k < length ns.
       box_position (?ms ! k) = (Num (of_nat k * 40), Num 0, Num 0) \<and>
       script_box_centre (?bs ! k) = (of_nat k * 40, 0, 0) \<and>
       (\<forall>b \<in> set (subtracted (?ms ! k)).
            (name b = fG \<longrightarrow> (\<exists>y. position b = (Num (of_nat k * 40), y, Num (20 / 2 - d + r)))) \<and>
            (name b = bG \<longrightarrow>
               (\<exists>y. position b = (Num (of_nat k * 40), y, Num (- (20 / 2 - d + r))))) \<and>
            (name b = rG \<longrightarrow>
               (\<exists>y. position b = (Num (of_nat k * 40 + (20 / 2 - d + r)), y, Num 0))) \<and>
            (name b = lG \<longrightarrow>
               (\<exists>y. position b = (Num (of_nat k * 40 - (20 / 2 - d + r)), y, Num 0))) \<and>
            (name b = topX \<or> name b = topZ \<longrightarrow>
               position b = (Num (of_nat k * 40), Num (of_nat (ns ! k) * 20 / 2 - d + r), Num 0)) \<and>
            (name b = botX \<or> name b = botZ \<longrightarrow>
               position b =
                 (Num (of_nat k * 40), Num (- (of_nat (ns ! k) * 20 / 2 - d + r)), Num 0))) \<and>
       (\<forall>c \<in> set (cutters (?bs ! k)).
            (cutter c = plane_g1 \<longrightarrow> (\<exists>z. centre c = (of_nat k * 40, 20 / 2 - d + r, z))) \<and>
            (cutter c = plane_g2 \<longrightarrow> (\<exists>z. centre c = (of_nat k * 40, - (20 / 2 - d + r), z))) \<and>
            (cutter c = plane_g3 \<longrightarrow> (\<exists>z. centre c = (of_nat k * 40 + (20 / 2 - d + r), 0, z))) \<and>
            (cutter c = plane_g4 \<longrightarrow> (\<exists>z. centre c = (of_nat k * 40 - (20 / 2 - d + r), 0, z))) \<and>
            (cutter c = plane_tx \<or> cutter c = plane_ty \<longrightarrow>
               centre c = (of_nat k * 40, 0, of_nat (ns ! k) * 20 / 2 - d + r)) \<and>
            (cutter c = plane_bx \<or> cutter c = plane_by \<longrightarrow>
               centre c = (of_nat k * 40, 0, - (of_nat (ns ! k) * 20 / 2 - d + r)))))"
  proof (intro allI impI)
    fix k assume k: "k < length ns"
    show "box_position (?ms ! k) = (Num (of_nat k * 40), Num 0, Num 0) \<and>
       script_box_centre (?bs ! k) = (of_nat k * 40, 0, 0) \<and>
       (\<forall>b \<in> set (subtracted (?ms ! k)).
            (name b = fG \<longrightarrow> (\<exists>y. position b = (Num (of_nat k * 40), y, Num (20 / 2 - d + r)))) \<and>
            (name b = bG \<longrightarrow>
               (\<exists>y. position b = (Num (of_nat k * 40), y, Num (- (20 / 2 - d + r))))) \<and>
            (name b = rG \<longrightarrow>
               (\<exists>y. position b = (Num (of_nat k * 40 + (20 / 2 - d + r)), y, Num 0))) \<and>
            (name b = lG \<longrightarrow>
               (\<exists>y. position b = (Num (of_nat k * 40 - (20 / 2 - d + r)), y, Num 0))) \<and>
            (name b = topX \<or> name b = topZ \<longrightarrow>
               position b = (Num (of_nat k * 40), Num (of_nat (ns ! k) * 20 / 2 - d + r), Num 0)) \<and>
            (name b = botX \<or> name b = botZ \<longrightarrow>
               position b =
                 (Num (of_nat k * 40), Num (- (of_nat (ns ! k) * 20 / 2 - d + r)), Num 0))) \<and>
       (\<forall>c \<in> set (cutters (?bs ! k)).
            (cutter c = plane_g1 \<longrightarrow> (\<exists>z. centre c = (of_nat k * 40, 20 / 2 - d + r, z))) \<and>
            (cutter c = plane_g2 \<longrightarrow> (\<exists>z. centre c = (of_nat k * 40, - (20 / 2 - d + r), z))) \<and>
            (cutter c = plane_g3 \<longrightarrow> (\<exists>z. centre c = (of_nat k * 40 + (20 / 2 - d + r), 0, z))) \<and>
            (cutter c = plane_g4 \<longrightarrow> (\<exists>z. centre c = (of_nat k * 40 - (20 / 2 - d + r), 0, z))) \<and>
            (cutter c = plane_tx \<or> cutter c = plane_ty \<longrightarrow>
               centre c = (of_nat k * 40, 0, of_nat (ns ! k) * 20 / 2 - d + r)) \<and>
            (cutter c = plane_bx \<or> cutter c = plane_by \<longrightarrow>
               centre c = (of_nat k * 40, 0, - (of_nat (ns ! k) * 20 / 2 - d + r))))"
      unfolding nth_meshes[OF k] nth_blocks[OF k]
      using mesh_groove_positions[of _ r d "ns ! k" k]
        script_groove_centres[of _ r d "ns ! k" "of_nat k * 40"]
      by (simp only: box_position_mesh_of script_box_centre_block) blast
  qed
  ultimately show ?thesis by blast
qed

text \<open>Two holes, radius 3, depth 1: the side grooves are at distance 12 and the top and
  bottom grooves at height 22 and -22, in the mesh and in the script.\<close>

theorem groove_offsets_two_holes:
  "blocksToMake (initial_state\<lparr>numHoles := Num 2, drillRadius := Num 3, grooveDepth := Num 1\<rparr>) =
     map (\<lambda>n. Num (of_nat n)) [2] \<and>
   (\<exists>m b. generateModel (initial_state\<lparr>numHoles := Num 2, drillRadius := Num 3, grooveDepth := Num 1\<rparr>) =
        Some (initial_state\<lparr>numHoles := Num 2, drillRadius := Num 3, grooveDepth := Num 1,
                currentMeshes := [m]\<rparr>) \<and>
      main (downloadRhinoScript
              (initial_state\<lparr>numHoles := Num 2, drillRadius := Num 3, grooveDepth := Num 1\<rparr>)) =
        Inr [b] \<and>
      map name (subtracted m) =
        [vCylBrush, xBrush, zBrush, fG, bG, rG, lG, xBrush, zBrush, fG, bG, rG, lG,
         topX, topZ, botX, botZ] \<and>
      (\<exists>y. position (subtracted m ! 3) = (Num 0, y, Num 12)) \<and>
      (\<exists>y. position (subtracted m ! 4) = (Num 0, y, Num (- 12))) \<and>
      (\<exists>y. position (subtracted m ! 5) = (Num 12, y, Num 0)) \<and>
      (\<exists>y. position (subtracted m ! 6) = (Num (- 12), y, Num 0)) \<and>
      position (subtracted m ! 13) = (Num 0, Num 22, Num 0) \<and>
      position (subtracted m ! 15) = (Num 0, Num (- 22), Num 0) \<and>
      map cutter (cutters b) =
        [cyl_v, plane_x, plane_y, plane_g1, plane_g2, plane_g3, plane_g4,
         plane_x, plane_y, plane_g1, plane_g2, plane_g3, plane_g4,
         plane_tx, plane_ty, plane_bx, plane_by] \<and>
      (\<exists>z. centre (cutters b ! 3) = (0, 12, z)) \<and>
      (\<exists>z. centre (cutters b ! 4) = (0, - 12, z)) \<and>
      (\<exists>z. centre (cutters b ! 5) = (12, 0, z)) \<and>
      (\<exists>z. centre (cutters b ! 6) = (- 12, 0, z)) \<and>
      centre (cutters b ! 13) = (0, 0, 22) \<and>
      centre (cutters b ! 15) = (0, 0, - 22))"
proof -
  let ?st = "initial_state\<lparr>numHoles := Num 2, drillRadius := Num 3, grooveDepth := Num 1\<rparr>"
  have h: "blocksToMake ?st = map (\<lambda>n. Num (of_nat n)) [2]"
    by (simp add: blocksToMake_def initial_state_def)
  have r: "drillRadius ?st = Num 3" and d: "grooveDepth ?st = Num 1"
    by (simp_all add: initial_state_def)
  show ?thesis
    using groove_offsets[OF h r d]
    apply (elim exE conjE)
    subgoal premises prems for ms bs
    proof -
      note gen = prems(1) and scr = prems(2) and len = prems(3,4)
      have k0: "0 < length [2::nat]" by simp
      note at0 = prems(5)[rule_format, OF k0]
      note mesh = at0[THEN conjunct2, THEN conjunct2, THEN conjunct1, rule_format]
      note script = at0[THEN conjunct2, THEN conjunct2, THEN conjunct2, rule_format]
      from len obtain m b where mb: "ms = [m]" "bs = [b]"
        by (cases ms; cases bs) auto
      have "generateModel ?st = Some (?st\<lparr>currentMeshes :=
          [mesh_of (Num 3) (Num 1) (Num (of_nat 2)) 0]\<rparr>)"
        using generateModel_counts[OF h] by (simp add: initial_state_def)
      with gen have m: "m = mesh_of (Num 3) (Num 1) (Num (of_nat 2)) 0"
        unfolding mb by (auto dest: currentMeshes_update_inject)
      have "main (downloadRhinoScript ?st) = Inr [script_block_of 3 1 2 0]"
        using main_eq[OF h r d] by simp
      with scr have b: "b = script_block_of 3 1 2 0"
        unfolding mb by simp
      have names: "map name (subtracted m) =
            [vCylBrush, xBrush, zBrush, fG, bG, rG, lG, xBrush, zBrush, fG, bG, rG, lG,
             topX, topZ, botX, botZ]"
        unfolding m
        by (simp add: mesh_of_def Let_def loop_count_def level_cutters_def top_bottom_cutters_def
            mk_brush_def js_gt_def upt_rec)
      have cnames: "map cutter (cutters b) =
            [cyl_v, plane_x, plane_y, plane_g1, plane_g2, plane_g3, plane_g4,
             plane_x, plane_y, plane_g1, plane_g2, plane_g3, plane_g4,
             plane_tx, plane_ty, plane_bx, plane_by]"
        unfolding b
        by (simp add: script_block_of_def Let_def script_level_cutters_def
            script_top_bottom_cutters_def AddCylinder_def upt_rec)
      have lm: "length (subtracted m) = 17" using arg_cong[OF names, of length] by simp
      have lb: "length (cutters b) = 17" using arg_cong[OF cnames, of length] by simp
      have nm: "name (subtracted m ! i) = map name (subtracted m) ! i" if "i < 17" for i
        using that lm by simp
      have cn: "cutter (cutters b ! i) = map cutter (cutters b) ! i" if "i < 17" for i
        using that lb by simp
      have inm: "subtracted m ! i \<in> set (subtracted (ms ! 0))" if "i < 17" for i
        using that lm mb by simp
      have inb: "cutters b ! i \<in> set (cutters (bs ! 0))" if "i < 17" for i
        using that lb mb by simp
      have "(\<exists>y. position (subtracted m ! 3) = (Num 0, y, Num 12))"
        using mesh[OF inm[of 3]] nm[of 3] by (simp add: names)
      moreover have "(\<exists>y. position (subtracted m ! 4) = (Num 0, y, Num (- 12)))"
        using mesh[OF inm[of 4]] nm[of 4] by (simp add: names)
      moreover have "(\<exists>y. position (subtracted m ! 5) = (Num 12, y, Num 0))"
        using mesh[OF inm[of 5]] nm[of 5] by (simp add: names)
      moreover have "(\<exists>y. position (subtracted m ! 6) = (Num (- 12), y, Num 0))"
        using mesh[OF inm[of 6]] nm[of 6] by (simp add: names)
      moreover have "position (subtracted m ! 13) = (Num 0, Num 22, Num 0)"
        using mesh[OF inm[of 13]] nm[of 13] by (simp add: names)
      moreover have "position (subtracted m ! 15) = (Num 0, Num (- 22), Num 0)"
        using mesh[OF inm[of 15]] nm[of 15] by (simp add: names)
      moreover have "(\<exists>z. centre (cutters b ! 3) = (0, 12, z))"
        using script[OF inb[of 3]] cn[of 3] by (simp add: cnames)
      moreover have "(\<exists>z. centre (cutters b ! 4) = (0, - 12, z))"
        using script[OF inb[of 4]] cn[of 4] by (simp add: cnames)
      moreover have "(\<exists>z. centre (cutters b ! 5) = (12, 0, z))"
        using script[OF inb[of 5]] cn[of 5] by (simp add: cnames)
      moreover have "(\<exists>z. centre (cutters b ! 6) = (- 12, 0, z))"
        using script[OF inb[of 6]] cn[of 6] by (simp add: cnames)
      moreover have "centre (cutters b ! 13) = (0, 0, 22)"
        using script[OF inb[of 13]] cn[of 13] by (simp add: cnames)
      moreover have "centre (cutters b ! 15) = (0, 0, - 22)"
        using script[OF inb[of 15]] cn[of 15] by (simp add: cnames)
      ultimately show ?thesis
        using h gen scr names cnames unfolding mb
        apply (intro conjI exI[of _ m] exI[of _ b])
        apply assumption+
        done
    qed
    done
qed

section \<open>The script against the mesh\<close>

lemma mesh_of_finite:
  "mesh_of (Num r) (Num d) (Num (of_nat n)) k =
     \<lparr>box = \<lparr>box_width = Num 20, box_height = Num (of_nat n * 20), box_depth = Num 20\<rparr>,
      box_position = (Num (of_nat k * 40), Num 0, Num 0),
      subtracted =
        mk_brush vCylBrush
          \<lparr>radiusTop = Num r, radiusBottom = Num r, cyl_height = Num (of_nat n * 20 + 20),
           radialSegments = SEGMENTS\<rparr> (Zero, Zero, Zero) (Num (of_nat k * 40), Num 0, Num 0)
        # concat (map (level_cutters (Num d) (hCyl r) (Num (of_nat k * 40)) (Num (of_nat n * 20))
                         (Num (10 - d + r))) [0..<n])
        @ top_bottom_cutters (Num d) (hCyl r) (Num (of_nat k * 40))
            (Num (of_nat n * 20 / 2 - d + r))\<rparr>"
  by (simp add: mesh_of_def Let_def loop_count_nat hCyl_def BOX_WIDTH_def BOX_DEPTH_def
      HEIGHT_PER_HOLE_def BATCH_SPACING_def js_sub_def)

lemma placed_level:
  "map rhino_cylinder_placed (script_level_cutters r d cx h go i) =
     map (\<lambda>b. map_option to_script_frame (brush_cylinder b))
       (level_cutters (Num d) (hCyl r) (Num cx) (Num h) (Num go) i)"
  by (simp add: script_level_cutters_def level_cutters_def Let_def rhino_cylinder_placed_def
      brush_cylinder_def to_script_frame_def exchange_yz_def normal_axis_def centre_def
      num_point_def brush_axis_def AddCylinder_def mk_brush_def hCyl_def js_gt_def js_sub_def
      FIRST_HOLE_OFFSET_def HOLE_STEP_def)

lemma placed_top_bottom:
  "map rhino_cylinder_placed (script_top_bottom_cutters r d cx h) =
     map (\<lambda>b. map_option to_script_frame (brush_cylinder b))
       (top_bottom_cutters (Num d) (hCyl r) (Num cx) (Num (h / 2 - d + r)))"
  by (simp add: script_top_bottom_cutters_def top_bottom_cutters_def Let_def
      rhino_cylinder_placed_def brush_cylinder_def to_script_frame_def exchange_yz_def
      normal_axis_def centre_def num_point_def brush_axis_def AddCylinder_def mk_brush_def
      hCyl_def js_gt_def)

lemma placed_levels:
  "map rhino_cylinder_placed (concat (map (script_level_cutters r d cx h go) is)) =
     map (\<lambda>b. map_option to_script_frame (brush_cylinder b))
       (concat (map (level_cutters (Num d) (hCyl r) (Num cx) (Num h) (Num go)) is))"
  by (induction "is") (simp_all add: placed_level)

lemma placed_defined_iff:
  "rhino_cylinder_placed c \<noteq> None \<longleftrightarrow> normal_axis (normal c) \<noteq> None"
  by (cases "normal_axis (normal c)") (simp_all add: rhino_cylinder_placed_def)

lemma normal_defined_level:
  "c \<in> set (script_level_cutters r d cx h go i) \<Longrightarrow> normal_axis (normal c) \<noteq> None"
  by (auto simp add: script_level_cutters_def Let_def normal_axis_def AddCylinder_def
      split: if_splits)

lemma normal_defined_top_bottom:
  "c \<in> set (script_top_bottom_cutters r d cx h) \<Longrightarrow> normal_axis (normal c) \<noteq> None"
  by (auto simp add: script_top_bottom_cutters_def Let_def normal_axis_def AddCylinder_def
      split: if_splits)

lemma normal_defined:
  assumes "c \<in> set (cutters (script_block_of r d n cx))"
  shows "normal_axis (normal c) \<noteq> None"
proof -
  from assms consider
    (vertical) "normal c = (0, 0, 1)"
    | (level) i where "c \<in> set (script_level_cutters r d cx (of_nat n * 20) (10 - d + r) i)"
    | (top_bottom) "c \<in> set (script_top_bottom_cutters r d cx (of_nat n * 20))"
    by (auto simp add: script_block_of_def Let_def AddCylinder_def)
  then show ?thesis
  proof cases
    case vertical
    then show ?thesis by (simp add: normal_axis_def)
  next
    case level
    then show ?thesis by (rule normal_defined_level)
  next
    case top_bottom
    then show ?thesis by (rule normal_defined_top_bottom)
  qed
qed

lemma placed_defined:
  "c \<in> set (cutters (script_block_of r d n cx)) \<Longrightarrow> rhino_cylinder_placed c \<noteq> None"
  by (rule iffD2[OF placed_defined_iff]) (rule normal_defined)

lemma solid_bounds_mesh_of:
  "solid_bounds (mesh_of (Num r) (Num d) (Num (of_nat n)) k) =
     ((Num (of_nat k * 40 - 10), Num (- (of_nat n * 20 / 2)), Num (- 10)),
      (Num (of_nat k * 40 + 10), Num (of_nat n * 20 / 2), Num 10))"
  by (simp add: mesh_of_finite solid_bounds_def js_sub_def)

lemma placed_contains_frame:
  "placed_contains (map_option to_script_frame c) (exchange_yz p) = placed_contains c p"
proof (cases c)
  case None
  then show ?thesis by (simp add: placed_contains_def)
next
  case (Some q)
  obtain a cx cy cz r l where q: "q = (a, (cx, cy, cz), r, l)" by (cases q) auto
  obtain x y z where p: "p = (x, y, z)" by (cases p) auto
  show ?thesis
    unfolding Some q p
    by (cases a; cases cx; cases cy; cases cz; cases r; cases l)
      (simp_all add: placed_contains_def to_script_frame_def exchange_yz_def
        cylinder_contains_def add.commute)
qed


lemma list_ex_placed:
  assumes "map f cs = map g vs"
  shows "list_ex (\<lambda>c. placed_contains (f c) q) cs = list_ex (\<lambda>b. placed_contains (g b) q) vs"
proof -
  have "list_ex (\<lambda>c. placed_contains (f c) q) cs = (\<exists>x \<in> set (map f cs). placed_contains x q)"
    by (simp add: list_ex_iff)
  also have "\<dots> = (\<exists>x \<in> set (map g vs). placed_contains x q)"
    by (simp only: assms)
  also have "\<dots> = list_ex (\<lambda>b. placed_contains (g b) q) vs"
    by (simp add: list_ex_iff)
  finally show ?thesis .
qed

lemma list_ex_hd_tl: "xs \<noteq> [] \<Longrightarrow> list_ex P xs = (P (hd xs) \<or> list_ex P (tl xs))"
  by (cases xs) simp_all

lemma same_points:
  "solid_contains (mesh_of (Num r) (Num d) (Num (of_nat n)) k) p =
     block_contains (script_block_of r d n (of_nat k * 40)) (exchange_yz p)"
proof -
  obtain x y z where p: "p = (x, y, z)" by (cases p) auto
  let ?m = "mesh_of (Num r) (Num d) (Num (of_nat n)) k"
  let ?b = "script_block_of r d n (of_nat k * 40)"
  let ?h = "of_nat n * 20 :: rat"
  let ?box = "of_nat k * 40 - 10 \<le> x \<and> x \<le> of_nat k * 40 + 10 \<and>
      - (?h / 2) \<le> y \<and> y \<le> ?h / 2 \<and> - 10 \<le> z \<and> z \<le> 10"
  have ne: "subtracted ?m \<noteq> []" "cutters ?b \<noteq> []"
    by (simp_all add: mesh_of_finite script_block_of_def Let_def)
  have rest: "map rhino_cylinder_placed (tl (cutters ?b)) =
      map (\<lambda>b. map_option to_script_frame (brush_cylinder b)) (tl (subtracted ?m))"
    by (simp add: mesh_of_finite script_block_of_def Let_def placed_levels placed_top_bottom)
  have others: "list_ex (\<lambda>c. placed_contains (rhino_cylinder_placed c) (exchange_yz p))
        (tl (cutters ?b)) =
      list_ex (\<lambda>b. placed_contains (brush_cylinder b) p) (tl (subtracted ?m))"
    using list_ex_placed[OF rest, of "exchange_yz p"] by (simp only: placed_contains_frame)
  have v: "brush_cylinder (hd (subtracted ?m)) =
      Some (AxisY, (Num (of_nat k * 40), Num 0, Num 0), Num r, Num (?h + 20))"
    by (simp add: mesh_of_finite mk_brush_def brush_cylinder_def brush_axis_def)
  have c: "rhino_cylinder_placed (hd (cutters ?b)) =
      Some (AxisZ, (Num (of_nat k * 40), Num 0, Num 0), Num r, Num (?h + 100))"
    by (simp add: script_block_of_def Let_def AddCylinder_def rhino_cylinder_placed_def
        normal_axis_def centre_def num_point_def add_divide_distrib)
  have vertical: "?box \<Longrightarrow>
      placed_contains (brush_cylinder (hd (subtracted ?m))) p =
      placed_contains (rhino_cylinder_placed (hd (cutters ?b))) (exchange_yz p)"
    unfolding v c p
    by (auto simp add: placed_contains_def cylinder_contains_def exchange_yz_def abs_le_iff)
  have mesh: "solid_contains ?m p =
      (?box \<and> \<not> (placed_contains (brush_cylinder (hd (subtracted ?m))) p \<or>
         list_ex (\<lambda>b. placed_contains (brush_cylinder b) p) (tl (subtracted ?m))))"
    unfolding solid_contains_def solid_bounds_mesh_of list_ex_hd_tl[OF ne(1)]
    by (simp add: box_contains_def p)
  have script: "block_contains ?b (exchange_yz p) =
      (?box \<and> \<not> (placed_contains (rhino_cylinder_placed (hd (cutters ?b))) (exchange_yz p) \<or>
         list_ex (\<lambda>c. placed_contains (rhino_cylinder_placed c) (exchange_yz p))
           (tl (cutters ?b))))"
    unfolding block_contains_def corner_bounds_script_block list_ex_hd_tl[OF ne(2)]
    by (auto simp add: box_contains_def p exchange_yz_def)
  show ?thesis
    unfolding mesh script others using vertical by blast
qed

text \<open>
  Claim C2. For every configuration with hole counts \<open>ns\<close> and finite radius \<open>r\<close> and
  depth \<open>d\<close>, both generators succeed with one block for each entry, and block by
  block, in the frame of the script: the box of the mesh and the box of the script have
  the same corners (width, depth, height \<open>20 n\<close>, centre at \<open>40 k\<close>); after the vertical
  hole, the cylinders of the script are, one by one and in order, the cutters of the
  mesh, with the same axis, centre (hole offsets, groove offsets, batch spacing), radius
  and length 80; the two vertical holes have the same axis, centre and radius, the
  mesh one with length \<open>20 n + 20\<close> and the script one with length \<open>20 n + 100\<close>, both
  longer than the box; and the solid of the mesh and the solid of the script hold the
  same points.
\<close>

theorem script_matches_mesh:
  assumes "blocksToMake st = map (\<lambda>n. Num (of_nat n)) ns"
    and "drillRadius st = Num r" and "grooveDepth st = Num d"
  shows "\<exists>ms bs. generateModel st = Some (st\<lparr>currentMeshes := ms\<rparr>) \<and>
    main (downloadRhinoScript st) = Inr bs \<and> length ms = length ns \<and> length bs = length ns \<and>
    (\<forall>k < length ns.
       solid_bounds (ms ! k) =
         (exchange_yz (num_point (fst (corner_bounds (base_id (bs ! k))))),
          exchange_yz (num_point (snd (corner_bounds (base_id (bs ! k)))))) \<and>
       (\<forall>p. solid_contains (ms ! k) p = block_contains (bs ! k) (exchange_yz p)) \<and>
       (\<forall>c \<in> set (cutters (bs ! k)). rhino_cylinder_placed c \<noteq> None) \<and>
       (\<exists>v vs c cs. subtracted (ms ! k) = v # vs \<and> cutters (bs ! k) = c # cs \<and>
          map rhino_cylinder_placed cs =
            map (\<lambda>b. map_option to_script_frame (brush_cylinder b)) vs \<and>
          map_option to_script_frame (brush_cylinder v) =
            Some (AxisZ, (Num (of_nat k * 40), Num 0, Num 0), Num r,
                  Num (of_nat (ns ! k) * 20 + 20)) \<and>
          rhino_cylinder_placed c =
            Some (AxisZ, (Num (of_nat k * 40), Num 0, Num 0), Num r,
                  Num (of_nat (ns ! k) * 20 + 100))))"
proof -
  let ?ms = "map (\<lambda>(i, n). mesh_of (Num r) (Num d) (Num (of_nat n)) i) (enumerate 0 ns)"
  let ?bs = "map (\<lambda>(i, n). script_block_of r d n (of_nat i * 40)) (enumerate 0 ns)"
  have "generateModel st = Some (st\<lparr>currentMeshes := ?ms\<rparr>)"
    using generateModel_counts[OF assms(1)] assms(2,3) by simp
  moreover have "main (downloadRhinoScript st) = Inr ?bs"
    using assms by (rule main_eq)
  moreover have "length ?ms = length ns" "length ?bs = length ns" by simp_all
  moreover have "\<forall>k < length ns.
       solid_bounds (?ms ! k) =
         (exchange_yz (num_point (fst (corner_bounds (base_id (?bs ! k))))),
          exchange_yz (num_point (snd (corner_bounds (base_id (?bs ! k)))))) \<and>
       (\<forall>p. solid_contains (?ms ! k) p = block_contains (?bs ! k) (exchange_yz p)) \<and>
       (\<forall>c \<in> set (cutters (?bs ! k)). rhino_cylinder_placed c \<noteq> None) \<and>
       (\<exists>v vs c cs. subtracted (?ms ! k) = v # vs \<and> cutters (?bs ! k) = c # cs \<and>
          map rhino_cylinder_placed cs =
            map (\<lambda>b. map_option to_script_frame (brush_cylinder b)) vs \<and>
          map_option to_script_frame (brush_cylinder v) =
            Some (AxisZ, (Num (of_nat k * 40), Num 0, Num 0), Num r,
                  Num (of_nat (ns ! k) * 20 + 20)) \<and>
          rhino_cylinder_placed c =
            Some (AxisZ, (Num (of_nat k * 40), Num 0, Num 0), Num r,
                  Num (of_nat (ns ! k) * 20 + 100)))"
  proof (intro allI impI)
    fix k assume k: "k < length ns"
    let ?n = "ns ! k"
    let ?m = "mesh_of (Num r) (Num d) (Num (of_nat ?n)) k"
    let ?b = "script_block_of r d ?n (of_nat k * 40)"
    have bounds: "solid_bounds ?m =
         (exchange_yz (num_point (fst (corner_bounds (base_id ?b)))),
          exchange_yz (num_point (snd (corner_bounds (base_id ?b)))))"
      by (simp add: solid_bounds_mesh_of corner_bounds_script_block exchange_yz_def
          num_point_def)
    have points: "\<forall>p. solid_contains ?m p = block_contains ?b (exchange_yz p)"
      by (simp add: same_points)
    have defined: "\<forall>c \<in> set (cutters ?b). rhino_cylinder_placed c \<noteq> None"
      using placed_defined by blast
    have rest: "map rhino_cylinder_placed (tl (cutters ?b)) =
        map (\<lambda>b. map_option to_script_frame (brush_cylinder b)) (tl (subtracted ?m))"
      by (simp add: mesh_of_finite script_block_of_def Let_def placed_levels
          placed_top_bottom)
    have v: "map_option to_script_frame (brush_cylinder (hd (subtracted ?m))) =
            Some (AxisZ, (Num (of_nat k * 40), Num 0, Num 0), Num r, Num (of_nat ?n * 20 + 20))"
      by (simp add: mesh_of_finite mk_brush_def brush_cylinder_def to_script_frame_def
          brush_axis_def exchange_yz_def)
    have c: "rhino_cylinder_placed (hd (cutters ?b)) =
            Some (AxisZ, (Num (of_nat k * 40), Num 0, Num 0), Num r, Num (of_nat ?n * 20 + 100))"
      by (simp add: script_block_of_def Let_def AddCylinder_def rhino_cylinder_placed_def
          normal_axis_def centre_def num_point_def add_divide_distrib)
    have ne: "subtracted ?m = hd (subtracted ?m) # tl (subtracted ?m)"
      "cutters ?b = hd (cutters ?b) # tl (cutters ?b)"
      by (simp_all add: mesh_of_finite script_block_of_def Let_def)
    show "solid_bounds (?ms ! k) =
         (exchange_yz (num_point (fst (corner_bounds (base_id (?bs ! k))))),
          exchange_yz (num_point (snd (corner_bounds (base_id (?bs ! k)))))) \<and>
       (\<forall>p. solid_contains (?ms ! k) p = block_contains (?bs ! k) (exchange_yz p)) \<and>
       (\<forall>c \<in> set (cutters (?bs ! k)). rhino_cylinder_placed c \<noteq> None) \<and>
       (\<exists>v vs c cs. subtracted (?ms ! k) = v # vs \<and> cutters (?bs ! k) = c # cs \<and>
          map rhino_cylinder_placed cs =
            map (\<lambda>b. map_option to_script_frame (brush_cylinder b)) vs \<and>
          map_option to_script_frame (brush_cylinder v) =
            Some (AxisZ, (Num (of_nat k * 40), Num 0, Num 0), Num r,
                  Num (of_nat (ns ! k) * 20 + 20)) \<and>
          rhino_cylinder_placed c =
            Some (AxisZ, (Num (of_nat k * 40), Num 0, Num 0), Num r,
                  Num (of_nat (ns ! k) * 20 + 100)))"
      unfolding nth_meshes[OF k] nth_blocks[OF k]
      using bounds points defined rest v c ne by blast
  qed
  ultimately show ?thesis by blast
qed

text \<open>One hole, radius 4, depth 0.5: the ten cylinders after the vertical hole, as the
  script places them, are those of the mesh; a point of the solid, a point of a
  through-hole and a point of a groove.\<close>

theorem script_matches_mesh_one_hole:
  "blocksToMake (initial_state\<lparr>numHoles := Num 1\<rparr>) = map (\<lambda>n. Num (of_nat n)) [1] \<and>
   drillRadius (initial_state\<lparr>numHoles := Num 1\<rparr>) = Num 4 \<and>
   grooveDepth (initial_state\<lparr>numHoles := Num 1\<rparr>) = Num (1 / 2) \<and>
   (\<exists>m b v vs c cs.
      generateModel (initial_state\<lparr>numHoles := Num 1\<rparr>) =
        Some (initial_state\<lparr>numHoles := Num 1, currentMeshes := [m]\<rparr>) \<and>
      main (downloadRhinoScript (initial_state\<lparr>numHoles := Num 1\<rparr>)) = Inr [b] \<and>
      subtracted m = v # vs \<and> cutters b = c # cs \<and>
      solid_bounds m =
        (exchange_yz (num_point (fst (corner_bounds (base_id b)))),
         exchange_yz (num_point (snd (corner_bounds (base_id b))))) \<and>
      corner_bounds (base_id b) = ((- 10, - 10, - 10), (10, 10, 10)) \<and>
      solid_contains m (9, 2, 7) \<and> block_contains b (9, 7, 2) \<and>
      \<not> solid_contains m (0, 3, 9) \<and> \<not> block_contains b (0, 9, 3) \<and>
      \<not> solid_contains m (9, 0, 99 / 10) \<and> \<not> block_contains b (9, 99 / 10, 0) \<and>
      map (\<lambda>b. map_option to_script_frame (brush_cylinder b)) vs =
        map rhino_cylinder_placed cs \<and>
      map rhino_cylinder_placed cs =
        [Some (AxisX, (Num 0, Num 0, Num 0), Num 4, Num 80),
         Some (AxisY, (Num 0, Num 0, Num 0), Num 4, Num 80),
         Some (AxisX, (Num 0, Num (27 / 2), Num 0), Num 4, Num 80),
         Some (AxisX, (Num 0, Num (- (27 / 2)), Num 0), Num 4, Num 80),
         Some (AxisY, (Num (27 / 2), Num 0, Num 0), Num 4, Num 80),
         Some (AxisY, (Num (- (27 / 2)), Num 0, Num 0), Num 4, Num 80),
         Some (AxisX, (Num 0, Num 0, Num (27 / 2)), Num 4, Num 80),
         Some (AxisY, (Num 0, Num 0, Num (27 / 2)), Num 4, Num 80),
         Some (AxisX, (Num 0, Num 0, Num (- (27 / 2))), Num 4, Num 80),
         Some (AxisY, (Num 0, Num 0, Num (- (27 / 2))), Num 4, Num 80)] \<and>
      map_option to_script_frame (brush_cylinder v) =
        Some (AxisZ, (Num 0, Num 0, Num 0), Num 4, Num 40) \<and>
      rhino_cylinder_placed c = Some (AxisZ, (Num 0, Num 0, Num 0), Num 4, Num 120))"
proof -
  let ?st = "initial_state\<lparr>numHoles := Num 1\<rparr>"
  have h: "blocksToMake ?st = map (\<lambda>n. Num (of_nat n)) [1]"
    by (simp add: blocksToMake_def initial_state_def)
  have r: "drillRadius ?st = Num 4" and d: "grooveDepth ?st = Num (1 / 2)"
    by (simp_all add: initial_state_def)
  have script: "main (downloadRhinoScript ?st) = Inr [script_block_of 4 (1 / 2) 1 0]"
    using main_eq[OF h r d] by simp
  show ?thesis
    using script_matches_mesh[OF h r d]
    apply (elim exE conjE)
    subgoal premises prems for ms bs
    proof -
      note gen = prems(1) and scr = prems(2) and len = prems(3,4)
      have k0: "0 < length [1::nat]" by simp
      note at0 = prems(5)[rule_format, OF k0]
      from len obtain m b where mb: "ms = [m]" "bs = [b]"
        by (cases ms; cases bs) auto
      from scr script have b: "b = script_block_of 4 (1 / 2) 1 0"
        unfolding mb by simp
      have points: "solid_contains m p = block_contains b (exchange_yz p)" for p
        using at0[THEN conjunct2, THEN conjunct1, rule_format, of p] unfolding mb by simp
      have inside: "block_contains b (9, 7, 2)" and hole: "\<not> block_contains b (0, 9, 3)"
        and groove: "\<not> block_contains b (9, 99 / 10, 0)"
        unfolding b by code_simp+
      have minside: "solid_contains m (9, 2, 7)" and mhole: "\<not> solid_contains m (0, 3, 9)"
        and mgroove: "\<not> solid_contains m (9, 0, 99 / 10)"
        using inside hole groove by (simp_all add: points exchange_yz_def)
      from at0 obtain v vs c cs where
        bounds: "solid_bounds m =
          (exchange_yz (num_point (fst (corner_bounds (base_id b)))),
           exchange_yz (num_point (snd (corner_bounds (base_id b)))))"
        and split: "subtracted m = v # vs" "cutters b = c # cs"
        and rest: "map rhino_cylinder_placed cs =
            map (\<lambda>b. map_option to_script_frame (brush_cylinder b)) vs"
        and vert: "map_option to_script_frame (brush_cylinder v) =
            Some (AxisZ, (Num 0, Num 0, Num 0), Num 4, Num 40)"
          "rhino_cylinder_placed c = Some (AxisZ, (Num 0, Num 0, Num 0), Num 4, Num 120)"
        unfolding mb by auto
      have corners: "corner_bounds (base_id b) = ((- 10, - 10, - 10), (10, 10, 10))"
        unfolding b by (simp add: corner_bounds_script_block)
      have "cs = tl (cutters (script_block_of 4 (1 / 2) 1 0))"
        using split(2) b by simp
      then have placed: "map rhino_cylinder_placed cs =
        [Some (AxisX, (Num 0, Num 0, Num 0), Num 4, Num 80),
         Some (AxisY, (Num 0, Num 0, Num 0), Num 4, Num 80),
         Some (AxisX, (Num 0, Num (27 / 2), Num 0), Num 4, Num 80),
         Some (AxisX, (Num 0, Num (- (27 / 2)), Num 0), Num 4, Num 80),
         Some (AxisY, (Num (27 / 2), Num 0, Num 0), Num 4, Num 80),
         Some (AxisY, (Num (- (27 / 2)), Num 0, Num 0), Num 4, Num 80),
         Some (AxisX, (Num 0, Num 0, Num (27 / 2)), Num 4, Num 80),
         Some (AxisY, (Num 0, Num 0, Num (27 / 2)), Num 4, Num 80),
         Some (AxisX, (Num 0, Num 0, Num (- (27 / 2))), Num 4, Num 80),
         Some (AxisY, (Num 0, Num 0, Num (- (27 / 2))), Num 4, Num 80)]"
        by (simp add: script_block_of_def Let_def script_level_cutters_def
            script_top_bottom_cutters_def AddCylinder_def rhino_cylinder_placed_def
            normal_axis_def centre_def num_point_def)
      show ?thesis
        using h r d gen scr split bounds corners rest[symmetric] placed vert
          minside inside mhole hole mgroove groove
        unfolding mb
        apply (intro conjI exI[of _ m] exI[of _ b] exI[of _ v] exI[of _ vs] exI[of _ c]
            exI[of _ cs])
        apply assumption+
        done
    qed
    done
qed

section \<open>Batch mode with the list 3, 2, 5\<close>

lemma hole_levels_3: "hole_levels (mesh_of r d (Num 3) k) = [Num (- 20), Num 0, Num 20]"
  by (simp add: hole_levels_def mesh_of_def Let_def loop_count_def HEIGHT_PER_HOLE_def
      through_hole_levels through_top_bottom mk_brush_def upt_rec)

lemma hole_levels_2: "hole_levels (mesh_of r d (Num 2) k) = [Num (- 10), Num 10]"
  by (simp add: hole_levels_def mesh_of_def Let_def loop_count_def HEIGHT_PER_HOLE_def
      through_hole_levels through_top_bottom mk_brush_def upt_rec)

lemma hole_levels_5:
  "hole_levels (mesh_of r d (Num 5) k) = [Num (- 40), Num (- 20), Num 0, Num 20, Num 40]"
  by (simp add: hole_levels_def mesh_of_def Let_def loop_count_def HEIGHT_PER_HOLE_def
      through_hole_levels through_top_bottom mk_brush_def upt_rec)

lemma script_through_levels:
  "map (\<lambda>c. snd (snd (centre c)))
     (filter (\<lambda>c. script_family (cutter c) = ThroughHole) (script_level_cutters r d cx h go i)) =
   [- h / 2 + 10 + of_nat i * 20, - h / 2 + 10 + of_nat i * 20]"
  by (simp add: script_level_cutters_def Let_def AddCylinder_def centre_def)

lemma script_through_top_bottom:
  "filter (\<lambda>c. script_family (cutter c) = ThroughHole) (script_top_bottom_cutters r d cx h) = []"
  by (simp add: script_top_bottom_cutters_def Let_def AddCylinder_def)

lemma script_hole_levels_3: "script_hole_levels (script_block_of r d 3 cx) = [- 20, 0, 20]"
  by (simp add: script_hole_levels_def script_block_of_def Let_def AddCylinder_def
      script_through_levels script_through_top_bottom upt_rec)

lemma script_hole_levels_2: "script_hole_levels (script_block_of r d 2 cx) = [- 10, 10]"
  by (simp add: script_hole_levels_def script_block_of_def Let_def AddCylinder_def
      script_through_levels script_through_top_bottom upt_rec)

lemma script_hole_levels_5:
  "script_hole_levels (script_block_of r d 5 cx) = [- 40, - 20, 0, 20, 40]"
  by (simp add: script_hole_levels_def script_block_of_def Let_def AddCylinder_def
      script_through_levels script_through_top_bottom upt_rec)


lemma main_is_py_list:
  "main_loop sc spacing ihs =
     py_list (map (\<lambda>(i, h). create_block sc h (of_nat i * spacing)) ihs)"
  by (induction ihs) (auto simp add: Let_def)

text \<open>
  Claim C5. In batch mode (any mode other than \<^verbatim>\<open>'single'\<close>) with the list \<open>[3, 2, 5]\<close>,
  whatever the radius and the depth, \<open>generateModel\<close> builds three solids whose boxes are
  centred at \<open>x = 0\<close>, \<open>40\<close> and \<open>80\<close>, with through-holes at exactly 3, 2 and 5 distinct
  levels of the long axis (6, 4 and 10 through-cylinders). The driver of the script
  holds the list \<open>[3, 2, 5]\<close> and the spacing 40 and calls \<open>create_block(3, 0)\<close>,
  \<open>create_block(2, 40)\<close> and \<open>create_block(5, 80)\<close>; for finite radius and depth these
  calls build three blocks centred at \<open>x = 0\<close>, \<open>40\<close> and \<open>80\<close> with the same 3, 2 and 5
  hole levels.
\<close>

theorem batch_3_2_5:
  assumes "mode st \<noteq> ''single''" and "batchList st = [Num 3, Num 2, Num 5]"
  shows "(\<exists>m0 m1 m2.
            generateModel st = Some (st\<lparr>currentMeshes := [m0, m1, m2]\<rparr>) \<and>
            box_position m0 = (Num 0, Num 0, Num 0) \<and>
            box_position m1 = (Num 40, Num 0, Num 0) \<and>
            box_position m2 = (Num 80, Num 0, Num 0) \<and>
            hole_levels m0 = [Num (- 20), Num 0, Num 20] \<and>
            hole_levels m1 = [Num (- 10), Num 10] \<and>
            hole_levels m2 = [Num (- 40), Num (- 20), Num 0, Num 20, Num 40] \<and>
            count_family ThroughHole (subtracted m0) = 6 \<and>
            count_family ThroughHole (subtracted m1) = 4 \<and>
            count_family ThroughHole (subtracted m2) = 10) \<and>
         lit_blocks (downloadRhinoScript st) = [Num 3, Num 2, Num 5] \<and>
         lit_spacing (downloadRhinoScript st) = Num 40 \<and>
         main (downloadRhinoScript st) =
           py_list [create_block (downloadRhinoScript st) 3 0,
                    create_block (downloadRhinoScript st) 2 40,
                    create_block (downloadRhinoScript st) 5 80] \<and>
         (\<forall>r d. drillRadius st = Num r \<and> grooveDepth st = Num d \<longrightarrow>
            (\<exists>b0 b1 b2.
               main (downloadRhinoScript st) = Inr [b0, b1, b2] \<and>
               script_box_centre b0 = (0, 0, 0) \<and>
               script_box_centre b1 = (40, 0, 0) \<and>
               script_box_centre b2 = (80, 0, 0) \<and>
               script_hole_levels b0 = [- 20, 0, 20] \<and>
               script_hole_levels b1 = [- 10, 10] \<and>
               script_hole_levels b2 = [- 40, - 20, 0, 20, 40] \<and>
               count_script_family ThroughHole (cutters b0) = 6 \<and>
               count_script_family ThroughHole (cutters b1) = 4 \<and>
               count_script_family ThroughHole (cutters b2) = 10))"
proof (intro conjI allI impI)
  have blocks: "blocksToMake st = map (\<lambda>n. Num (of_nat n)) [3, 2, 5]"
    using assms by (simp add: blocksToMake_def)
  let ?r = "drillRadius st" and ?d = "grooveDepth st"
  have "generateModel st = Some (st\<lparr>currentMeshes :=
      [mesh_of ?r ?d (Num 3) 0, mesh_of ?r ?d (Num 2) 1, mesh_of ?r ?d (Num 5) 2]\<rparr>)"
    using generateModel_counts[OF blocks] by (simp add: numeral_2_eq_2)
  moreover have "count_family ThroughHole (subtracted (mesh_of ?r ?d (Num 3) 0)) = 6"
    "count_family ThroughHole (subtracted (mesh_of ?r ?d (Num 2) 1)) = 4"
    "count_family ThroughHole (subtracted (mesh_of ?r ?d (Num 5) 2)) = 10"
    using count_mesh_of[of ThroughHole ?r ?d 3 0] count_mesh_of[of ThroughHole ?r ?d 2 1]
      count_mesh_of[of ThroughHole ?r ?d 5 2]
    by simp_all
  moreover have "box_position (mesh_of ?r ?d (Num 3) 0) = (Num 0, Num 0, Num 0)"
    "box_position (mesh_of ?r ?d (Num 2) 1) = (Num 40, Num 0, Num 0)"
    "box_position (mesh_of ?r ?d (Num 5) 2) = (Num 80, Num 0, Num 0)"
    by (simp_all add: box_position_mesh_of)
  ultimately show "\<exists>m0 m1 m2.
            generateModel st = Some (st\<lparr>currentMeshes := [m0, m1, m2]\<rparr>) \<and>
            box_position m0 = (Num 0, Num 0, Num 0) \<and>
            box_position m1 = (Num 40, Num 0, Num 0) \<and>
            box_position m2 = (Num 80, Num 0, Num 0) \<and>
            hole_levels m0 = [Num (- 20), Num 0, Num 20] \<and>
            hole_levels m1 = [Num (- 10), Num 10] \<and>
            hole_levels m2 = [Num (- 40), Num (- 20), Num 0, Num 20, Num 40] \<and>
            count_family ThroughHole (subtracted m0) = 6 \<and>
            count_family ThroughHole (subtracted m1) = 4 \<and>
            count_family ThroughHole (subtracted m2) = 10"
    using hole_levels_3[of ?r ?d 0] hole_levels_2[of ?r ?d 1] hole_levels_5[of ?r ?d 2]
    by blast
next
  show lits: "lit_blocks (downloadRhinoScript st) = [Num 3, Num 2, Num 5]"
    using assms by (simp add: lit_blocks_eq blocksToMake_def)
  show spacing: "lit_spacing (downloadRhinoScript st) = Num 40"
    by (simp add: downloadRhinoScript_def Let_def BATCH_SPACING_def)
  show "main (downloadRhinoScript st) =
           py_list [create_block (downloadRhinoScript st) 3 0,
                    create_block (downloadRhinoScript st) 2 40,
                    create_block (downloadRhinoScript st) 5 80]"
    unfolding main_def lits spacing
    by (simp add: py_literal_Num py_bind_Inr main_is_py_list)
next
  fix r d
  assume fin: "drillRadius st = Num r \<and> grooveDepth st = Num d"
  have blocks: "blocksToMake st = map (\<lambda>n. Num (of_nat n)) [3, 2, 5]"
    using assms by (simp add: blocksToMake_def)
  have "main (downloadRhinoScript st) =
      Inr [script_block_of r d 3 0, script_block_of r d 2 40, script_block_of r d 5 80]"
    using main_eq[OF blocks, of r d] fin by simp
  moreover have "count_script_family ThroughHole (cutters (script_block_of r d 3 0)) = 6"
    "count_script_family ThroughHole (cutters (script_block_of r d 2 40)) = 4"
    "count_script_family ThroughHole (cutters (script_block_of r d 5 80)) = 10"
    by (simp_all add: count_script_family_def script_block_of_def Let_def
        script_level_cutters_def script_top_bottom_cutters_def AddCylinder_def upt_rec)
  ultimately show "\<exists>b0 b1 b2.
               main (downloadRhinoScript st) = Inr [b0, b1, b2] \<and>
               script_box_centre b0 = (0, 0, 0) \<and>
               script_box_centre b1 = (40, 0, 0) \<and>
               script_box_centre b2 = (80, 0, 0) \<and>
               script_hole_levels b0 = [- 20, 0, 20] \<and>
               script_hole_levels b1 = [- 10, 10] \<and>
               script_hole_levels b2 = [- 40, - 20, 0, 20, 40] \<and>
               count_script_family ThroughHole (cutters b0) = 6 \<and>
               count_script_family ThroughHole (cutters b1) = 4 \<and>
               count_script_family ThroughHole (cutters b2) = 10"
    using script_hole_levels_3[of r d 0] script_hole_levels_2[of r d 40]
      script_hole_levels_5[of r d 80] script_box_centre_block[of r d 3 0]
      script_box_centre_block[of r d 2 40] script_box_centre_block[of r d 5 80]
    by blast
qed

text \<open>The initial parameters, switched to batch mode.\<close>

theorem batch_3_2_5_initial_batch:
  "mode (initial_state\<lparr>mode := ''batch''\<rparr>) \<noteq> ''single'' \<and>
   batchList (initial_state\<lparr>mode := ''batch''\<rparr>) = [Num 3, Num 2, Num 5] \<and>
   drillRadius (initial_state\<lparr>mode := ''batch''\<rparr>) = Num 4 \<and>
   grooveDepth (initial_state\<lparr>mode := ''batch''\<rparr>) = Num (1 / 2) \<and>
   (\<exists>m0 m1 m2.
      generateModel (initial_state\<lparr>mode := ''batch''\<rparr>) =
        Some (initial_state\<lparr>mode := ''batch'', currentMeshes := [m0, m1, m2]\<rparr>) \<and>
      box_position m0 = (Num 0, Num 0, Num 0) \<and>
      box_position m1 = (Num 40, Num 0, Num 0) \<and>
      box_position m2 = (Num 80, Num 0, Num 0) \<and>
      hole_levels m0 = [Num (- 20), Num 0, Num 20] \<and>
      hole_levels m1 = [Num (- 10), Num 10] \<and>
      hole_levels m2 = [Num (- 40), Num (- 20), Num 0, Num 20, Num 40] \<and>
      count_family ThroughHole (subtracted m0) = 6 \<and>
      count_family ThroughHole (subtracted m1) = 4 \<and>
      count_family ThroughHole (subtracted m2) = 10) \<and>
   (\<exists>b0 b1 b2.
      main (downloadRhinoScript (initial_state\<lparr>mode := ''batch''\<rparr>)) = Inr [b0, b1, b2] \<and>
      script_box_centre b0 = (0, 0, 0) \<and>
      script_box_centre b1 = (40, 0, 0) \<and>
      script_box_centre b2 = (80, 0, 0) \<and>
      script_hole_levels b0 = [- 20, 0, 20] \<and>
      script_hole_levels b1 = [- 10, 10] \<and>
      script_hole_levels b2 = [- 40, - 20, 0, 20, 40] \<and>
      count_script_family ThroughHole (cutters b0) = 6 \<and>
      count_script_family ThroughHole (cutters b1) = 4 \<and>
      count_script_family ThroughHole (cutters b2) = 10)"
proof -
  let ?st = "initial_state\<lparr>mode := ''batch''\<rparr>"
  have m: "mode ?st \<noteq> ''single''" and b: "batchList ?st = [Num 3, Num 2, Num 5]"
    by (simp_all add: initial_state_def)
  have rd: "drillRadius ?st = Num 4 \<and> grooveDepth ?st = Num (1 / 2)"
    by (simp add: initial_state_def)
  note inst = batch_3_2_5[OF m b]
  note mesh = inst[THEN conjunct1]
  note script = inst[THEN conjunct2, THEN conjunct2, THEN conjunct2, THEN conjunct2,
      rule_format, OF rd]
  show ?thesis
    using m b rd mesh script by (intro conjI) simp_all
qed

section \<open>The floor of the radius and a groove depth of zero\<close>

lemma mesh_of_radius:
  assumes "b \<in> set (subtracted (mesh_of r d h k))"
  shows "radiusTop (geometry b) = r \<and> radiusBottom (geometry b) = r"
  using assms
  by (auto simp add: mesh_of_def Let_def level_cutters_def top_bottom_cutters_def mk_brush_def
      split: if_splits)

lemma radius_input_fields:
  "mode (radius_input v st) = mode st" "numHoles (radius_input v st) = numHoles st"
  "batchList (radius_input v st) = batchList st" "grooveDepth (radius_input v st) = grooveDepth st"
  "currentMeshes (radius_input v st) = currentMeshes st"
  "blocksToMake (radius_input v st) = blocksToMake st"
  by (simp_all add: radius_input_def Let_def blocksToMake_def)

lemma count_script_family_Cons:
  "count_script_family f (c # cs) =
     (if script_family (cutter c) = f then 1 else 0) + count_script_family f cs"
  by (simp add: count_script_family_def)

lemma count_script_family_append:
  "count_script_family f (bs @ cs) = count_script_family f bs + count_script_family f cs"
  by (simp add: count_script_family_def)

lemma count_script_family_concat:
  assumes "\<And>i. count_script_family f (g i) = c"
  shows "count_script_family f (concat (map g is)) = c * length is"
  using filter_concat_const[of "\<lambda>b. script_family (cutter b) = f" g c "is"] assms
  by (simp add: count_script_family_def)

lemma count_script_level_cutters:
  "count_script_family f (script_level_cutters r d cx h go i) =
     (case f of VerticalHole \<Rightarrow> 0 | ThroughHole \<Rightarrow> 2
      | SideGroove \<Rightarrow> (if d > 0 then 4 else 0) | TopBottomGroove \<Rightarrow> 0)"
  by (cases f)
    (simp_all add: count_script_family_def script_level_cutters_def AddCylinder_def Let_def)

lemma count_script_top_bottom_cutters:
  "count_script_family f (script_top_bottom_cutters r d cx h) =
     (case f of TopBottomGroove \<Rightarrow> (if d > 0 then 4 else 0) | _ \<Rightarrow> 0)"
  by (cases f)
    (simp_all add: count_script_family_def script_top_bottom_cutters_def AddCylinder_def Let_def)

lemma count_script_block_of:
  "count_script_family f (cutters (script_block_of r d n cx)) =
     (case f of VerticalHole \<Rightarrow> 1 | ThroughHole \<Rightarrow> 2 * n
      | SideGroove \<Rightarrow> (if d > 0 then 4 * n else 0)
      | TopBottomGroove \<Rightarrow> (if d > 0 then 4 else 0))"
  by (cases f)
    (simp_all add: script_block_of_def Let_def count_script_family_Cons
      count_script_family_append count_script_family_concat[OF count_script_level_cutters]
      count_script_top_bottom_cutters AddCylinder_def)

lemma single_block_length:
  assumes "blocksToMake st = map (\<lambda>n. Num (of_nat n)) [n]"
  shows "generateModel st = Some (st\<lparr>currentMeshes := [m]\<rparr>) \<Longrightarrow>
    length (subtracted m) = 1 + 2 * n + (if js_gt (grooveDepth st) (Num 0) then 4 * n + 4 else 0)"
  using generateModel_counts[OF assms]
  by (auto dest!: currentMeshes_update_inject simp add: length_mesh_of)

text \<open>
  Claim C6. When the radius field parses to a number that is \<open>\<le> 0\<close>, the handler stores
  0.5 as \<open>drillRadius\<close>: the script generated from the state it leaves has 0.5 as its
  radius, and every cutter of every solid generated from it has radius 0.5. When
  \<open>grooveDepth\<close> is 0, \<open>generateModel\<close> subtracts no side-groove and no top or bottom
  groove cylinder from any block; the two guards of the script compare the literal 0
  with 0, and the script builds no groove cylinder either.
\<close>

theorem radius_floor_and_zero_depth:
  "(js_le (parseFloat v) (Num 0) \<longrightarrow>
      drillRadius (radius_input v st) = Num (1 / 2) \<and>
      lit_radius (downloadRhinoScript (radius_input v st)) = Num (1 / 2) \<and>
      lit_tb_radius (downloadRhinoScript (radius_input v st)) = Num (1 / 2) \<and>
      (blocksToMake st = map (\<lambda>n. Num (of_nat n)) ns \<longrightarrow>
         (\<exists>ms. generateModel (radius_input v st) =
                 Some ((radius_input v st)\<lparr>currentMeshes := ms\<rparr>) \<and>
               length ms = length ns \<and>
               (\<forall>k < length ns. \<forall>b \<in> set (subtracted (ms ! k)).
                  radiusTop (geometry b) = Num (1 / 2) \<and>
                  radiusBottom (geometry b) = Num (1 / 2))))) \<and>
   (grooveDepth st = Num 0 \<and> blocksToMake st = map (\<lambda>n. Num (of_nat n)) ns \<longrightarrow>
      (\<exists>ms. generateModel st = Some (st\<lparr>currentMeshes := ms\<rparr>) \<and> length ms = length ns \<and>
            (\<forall>k < length ns.
               count_family SideGroove (subtracted (ms ! k)) = 0 \<and>
               count_family TopBottomGroove (subtracted (ms ! k)) = 0)) \<and>
      lit_level_guard (downloadRhinoScript st) = Num 0 \<and>
      lit_tb_guard (downloadRhinoScript st) = Num 0 \<and>
      (\<forall>r. drillRadius st = Num r \<longrightarrow>
         (\<exists>bs. main (downloadRhinoScript st) = Inr bs \<and> length bs = length ns \<and>
               (\<forall>k < length ns.
                  count_script_family SideGroove (cutters (bs ! k)) = 0 \<and>
                  count_script_family TopBottomGroove (cutters (bs ! k)) = 0))))"
proof (intro conjI impI)
  assume le: "js_le (parseFloat v) (Num 0)"
  then show r: "drillRadius (radius_input v st) = Num (1 / 2)"
    by (simp add: radius_input_def Let_def)
  then show "lit_radius (downloadRhinoScript (radius_input v st)) = Num (1 / 2)"
    and "lit_tb_radius (downloadRhinoScript (radius_input v st)) = Num (1 / 2)"
    by (simp_all add: downloadRhinoScript_def Let_def)
  assume blocks: "blocksToMake st = map (\<lambda>n. Num (of_nat n)) ns"
  let ?st = "radius_input v st"
  let ?ms = "map (\<lambda>(i, n). mesh_of (Num (1 / 2)) (grooveDepth ?st) (Num (of_nat n)) i)
               (enumerate 0 ns)"
  have "blocksToMake ?st = map (\<lambda>n. Num (of_nat n)) ns"
    using blocks by (simp add: radius_input_fields)
  then have "generateModel ?st = Some (?st\<lparr>currentMeshes := ?ms\<rparr>)"
    using generateModel_counts[of ?st ns] r by simp
  moreover have "length ?ms = length ns" by simp
  moreover have "\<forall>k < length ns. \<forall>b \<in> set (subtracted (?ms ! k)).
      radiusTop (geometry b) = Num (1 / 2) \<and> radiusBottom (geometry b) = Num (1 / 2)"
  proof (intro allI impI ballI)
    fix k b assume k: "k < length ns" and b: "b \<in> set (subtracted (?ms ! k))"
    from b have "b \<in> set (subtracted (mesh_of (Num (1 / 2)) (grooveDepth ?st)
        (Num (of_nat (ns ! k))) k))"
      unfolding nth_meshes[OF k] .
    then show "radiusTop (geometry b) = Num (1 / 2) \<and> radiusBottom (geometry b) = Num (1 / 2)"
      by (rule mesh_of_radius)
  qed
  ultimately show "\<exists>ms. generateModel ?st = Some (?st\<lparr>currentMeshes := ms\<rparr>) \<and>
      length ms = length ns \<and>
      (\<forall>k < length ns. \<forall>b \<in> set (subtracted (ms ! k)).
         radiusTop (geometry b) = Num (1 / 2) \<and> radiusBottom (geometry b) = Num (1 / 2))"
    by blast
next
  assume a: "grooveDepth st = Num 0 \<and> blocksToMake st = map (\<lambda>n. Num (of_nat n)) ns"
  then have d: "grooveDepth st = Num 0"
    and blocks: "blocksToMake st = map (\<lambda>n. Num (of_nat n)) ns" by simp_all
  let ?ms = "map (\<lambda>(i, n). mesh_of (drillRadius st) (Num 0) (Num (of_nat n)) i)
               (enumerate 0 ns)"
  have "generateModel st = Some (st\<lparr>currentMeshes := ?ms\<rparr>)"
    using generateModel_counts[OF blocks] d by simp
  moreover have "length ?ms = length ns" by simp
  moreover have "\<forall>k < length ns.
      count_family SideGroove (subtracted (?ms ! k)) = 0 \<and>
      count_family TopBottomGroove (subtracted (?ms ! k)) = 0"
  proof (intro allI impI)
    fix k assume k: "k < length ns"
    show "count_family SideGroove (subtracted (?ms ! k)) = 0 \<and>
      count_family TopBottomGroove (subtracted (?ms ! k)) = 0"
      unfolding nth_meshes[OF k] by (simp add: count_mesh_of js_gt_def)
  qed
  ultimately show "\<exists>ms. generateModel st = Some (st\<lparr>currentMeshes := ms\<rparr>) \<and>
      length ms = length ns \<and>
      (\<forall>k < length ns.
         count_family SideGroove (subtracted (ms ! k)) = 0 \<and>
         count_family TopBottomGroove (subtracted (ms ! k)) = 0)"
    by blast
  show "lit_level_guard (downloadRhinoScript st) = Num 0"
    and "lit_tb_guard (downloadRhinoScript st) = Num 0"
    using d by (simp_all add: downloadRhinoScript_def Let_def)
  show "\<forall>r. drillRadius st = Num r \<longrightarrow>
         (\<exists>bs. main (downloadRhinoScript st) = Inr bs \<and> length bs = length ns \<and>
               (\<forall>k < length ns.
                  count_script_family SideGroove (cutters (bs ! k)) = 0 \<and>
                  count_script_family TopBottomGroove (cutters (bs ! k)) = 0))"
  proof (intro allI impI)
    fix r assume r: "drillRadius st = Num r"
    let ?bs = "map (\<lambda>(i, n). script_block_of r 0 n (of_nat i * 40)) (enumerate 0 ns)"
    have "main (downloadRhinoScript st) = Inr ?bs"
      using blocks r d by (rule main_eq)
    moreover have "length ?bs = length ns" by simp
    moreover have "\<forall>k < length ns.
        count_script_family SideGroove (cutters (?bs ! k)) = 0 \<and>
        count_script_family TopBottomGroove (cutters (?bs ! k)) = 0"
    proof (intro allI impI)
      fix k assume k: "k < length ns"
      show "count_script_family SideGroove (cutters (?bs ! k)) = 0 \<and>
        count_script_family TopBottomGroove (cutters (?bs ! k)) = 0"
        unfolding nth_blocks[OF k] by (simp add: count_script_block_of)
    qed
    ultimately show "\<exists>bs. main (downloadRhinoScript st) = Inr bs \<and> length bs = length ns \<and>
        (\<forall>k < length ns.
           count_script_family SideGroove (cutters (bs ! k)) = 0 \<and>
           count_script_family TopBottomGroove (cutters (bs ! k)) = 0)"
      by blast
  qed
qed

text \<open>The radius field set to \<^verbatim>\<open>-3\<close>, on the initial parameters with groove depth 0.\<close>

theorem radius_floor_and_zero_depth_example:
  "js_le (parseFloat (utf16 ''-3'')) (Num 0) \<and>
   grooveDepth (initial_state\<lparr>grooveDepth := Num 0\<rparr>) = Num 0 \<and>
   blocksToMake (initial_state\<lparr>grooveDepth := Num 0\<rparr>) = map (\<lambda>n. Num (of_nat n)) [5] \<and>
   drillRadius (initial_state\<lparr>grooveDepth := Num 0\<rparr>) = Num 4 \<and>
   drillRadius (radius_input (utf16 ''-3'') (initial_state\<lparr>grooveDepth := Num 0\<rparr>)) = Num (1 / 2) \<and>
   lit_radius (downloadRhinoScript (radius_input (utf16 ''-3'') (initial_state\<lparr>grooveDepth := Num 0\<rparr>))) =
     Num (1 / 2) \<and>
   (\<exists>m. generateModel (radius_input (utf16 ''-3'') (initial_state\<lparr>grooveDepth := Num 0\<rparr>)) =
          Some ((radius_input (utf16 ''-3'') (initial_state\<lparr>grooveDepth := Num 0\<rparr>))
                  \<lparr>currentMeshes := [m]\<rparr>) \<and>
        length (subtracted m) = 11 \<and>
        radiusTop (geometry (subtracted m ! 0)) = Num (1 / 2) \<and>
        radiusBottom (geometry (subtracted m ! 0)) = Num (1 / 2) \<and>
        radiusTop (geometry (subtracted m ! 10)) = Num (1 / 2) \<and>
        radiusBottom (geometry (subtracted m ! 10)) = Num (1 / 2)) \<and>
   (\<exists>m. generateModel (initial_state\<lparr>grooveDepth := Num 0\<rparr>) =
          Some (initial_state\<lparr>grooveDepth := Num 0, currentMeshes := [m]\<rparr>) \<and>
        count_family SideGroove (subtracted m) = 0 \<and>
        count_family TopBottomGroove (subtracted m) = 0) \<and>
   (\<exists>b. main (downloadRhinoScript (initial_state\<lparr>grooveDepth := Num 0\<rparr>)) = Inr [b] \<and>
        count_script_family SideGroove (cutters b) = 0 \<and>
        count_script_family TopBottomGroove (cutters b) = 0)"
proof -
  let ?st = "initial_state\<lparr>grooveDepth := Num 0\<rparr>"
  let ?st' = "radius_input (utf16 ''-3'') ?st"
  have le: "js_le (parseFloat (utf16 ''-3'')) (Num 0)"
    by code_simp
  have d: "grooveDepth ?st = Num 0" and r: "drillRadius ?st = Num 4"
    and blocks: "blocksToMake ?st = map (\<lambda>n. Num (of_nat n)) [5]"
    by (simp_all add: initial_state_def blocksToMake_def)
  note inst = radius_floor_and_zero_depth[of "(utf16 ''-3'')" ?st "[5]"]
  note floor = inst[THEN conjunct1, rule_format, OF le]
  note zero = inst[THEN conjunct2, rule_format, OF conjI[OF d blocks]]
  from floor[THEN conjunct2, THEN conjunct2, THEN conjunct2, rule_format, OF blocks]
  obtain ms where gen: "generateModel ?st' = Some (?st'\<lparr>currentMeshes := ms\<rparr>)"
    and len: "length ms = 1"
    and radii: "\<And>b. b \<in> set (subtracted (ms ! 0)) \<Longrightarrow>
        radiusTop (geometry b) = Num (1 / 2) \<and> radiusBottom (geometry b) = Num (1 / 2)"
    by auto
  from len obtain m where m: "ms = [m]" by (cases ms) auto
  have "blocksToMake ?st' = map (\<lambda>n. Num (of_nat n)) [5]"
    using blocks by (simp add: radius_input_fields)
  from single_block_length[OF this] gen
  have lm: "length (subtracted m) = 11"
    unfolding m by (auto dest!: currentMeshes_update_inject simp add: radius_input_fields d js_gt_def)
  have first: "radiusTop (geometry (subtracted m ! 0)) = Num (1 / 2) \<and>
      radiusBottom (geometry (subtracted m ! 0)) = Num (1 / 2)"
    and last: "radiusTop (geometry (subtracted m ! 10)) = Num (1 / 2) \<and>
      radiusBottom (geometry (subtracted m ! 10)) = Num (1 / 2)"
    using radii[of "subtracted m ! 0"] radii[of "subtracted m ! 10"] lm m by simp_all
  from zero[THEN conjunct1] obtain ms0 where
    gen0: "generateModel ?st = Some (?st\<lparr>currentMeshes := ms0\<rparr>)" and "length ms0 = 1"
    and none: "count_family SideGroove (subtracted (ms0 ! 0)) = 0"
      "count_family TopBottomGroove (subtracted (ms0 ! 0)) = 0"
    by auto
  then obtain m0 where m0: "ms0 = [m0]" by (cases ms0) auto
  from zero[THEN conjunct2, THEN conjunct2, THEN conjunct2, rule_format, OF r]
  obtain bs where scr: "main (downloadRhinoScript ?st) = Inr bs" and "length bs = 1"
    and snone: "count_script_family SideGroove (cutters (bs ! 0)) = 0"
      "count_script_family TopBottomGroove (cutters (bs ! 0)) = 0"
    by auto
  then obtain b where b: "bs = [b]" by (cases bs) auto
  show ?thesis
    using le d blocks r floor[THEN conjunct1] floor[THEN conjunct2, THEN conjunct1]
      gen lm first last gen0 none scr snone unfolding m m0 b
    by (intro conjI) auto
qed

section \<open>The batch list\<close>

lemma number_of_digits_range:
  "number_of_digits m = PInf \<or> (\<exists>k::int. number_of_digits m = Num (of_int k))"
  by (simp add: number_of_digits_def)

lemma parseInt_shape:
  "parseInt s = NaN \<or> (\<exists>m. parseInt s = number_of_digits m) \<or>
   (\<exists>m. parseInt s = js_neg (number_of_digits m))"
  by (auto simp add: parseInt_def Let_def split: prod.splits)

lemma parseInt_range:
  "parseInt s = NaN \<or> parseInt s = PInf \<or> parseInt s = NInf \<or>
   (\<exists>k::int. parseInt s = Num (of_int k))"
proof -
  consider "parseInt s = NaN" | m where "parseInt s = number_of_digits m"
    | m where "parseInt s = js_neg (number_of_digits m)"
    using parseInt_shape[of s] by blast
  then show ?thesis
  proof cases
    case 1
    then show ?thesis by simp
  next
    case (2 m)
    from number_of_digits_range[of m] show ?thesis
    proof
      assume "number_of_digits m = PInf"
      with 2 show ?thesis by simp
    next
      assume "\<exists>k::int. number_of_digits m = Num (of_int k)"
      then obtain k :: int where "number_of_digits m = Num (of_int k)" ..
      with 2 have "parseInt s = Num (of_int k)" by simp
      then show ?thesis by blast
    qed
  next
    case (3 m)
    from number_of_digits_range[of m] show ?thesis
    proof
      assume "number_of_digits m = PInf"
      with 3 show ?thesis by simp
    next
      assume "\<exists>k::int. number_of_digits m = Num (of_int k)"
      then obtain k :: int where "number_of_digits m = Num (of_int k)" ..
      with 3 have "parseInt s = Num (of_int (- k))" by simp
      then show ?thesis by blast
    qed
  qed
qed

text \<open>
  What the filter of the batch field keeps: the entries whose \<^verbatim>\<open>parseInt\<close>, after trimming,
  is a positive integer or \<^verbatim>\<open>Infinity\<close>. An entry that does not parse, a zero and a negative
  number are dropped.
\<close>

lemma batch_filter_kept:
  "(\<not> isNaN (parseInt s) \<and> js_gt (parseInt s) (Num 0)) =
   (positive_integer (parseInt s) \<or> parseInt s = PInf)"
  using parseInt_range[of s]
  by (auto simp add: isNaN_def js_gt_def positive_integer_def)

lemma batch_parts_kept:
  "batch_parts str =
     filter (\<lambda>n. positive_integer n \<or> n = PInf)
       (map (\<lambda>s. parseInt (trim s)) (split (of_char CHR '','') str))"
  unfolding batch_parts_def
proof (rule filter_cong[OF refl])
  fix x
  assume "x \<in> set (map (\<lambda>s. parseInt (trim s)) (split (of_char CHR '','') str))"
  then obtain s where "x = parseInt (trim s)" by auto
  then show "(\<not> isNaN x \<and> js_gt x (Num 0)) = (positive_integer x \<or> x = PInf)"
    using batch_filter_kept[of "trim s"] by simp
qed

text \<open>When the filtered list is empty the state, and with it the previous batch list, is
  unchanged; otherwise the filtered list becomes the batch list.\<close>

lemma batch_input_empty: "batch_parts str = [] \<Longrightarrow> batch_input str st = st"
  by (simp add: batch_input_def Let_def)

lemma batch_input_stored:
  "batch_parts str \<noteq> [] \<Longrightarrow> batch_input str st = st\<lparr>batchList := batch_parts str\<rparr>"
  by (simp add: batch_input_def Let_def)

lemma batch_parts_examples:
  "batch_parts (utf16 ''3, x, -2, 0, 7abc,, 4 '') = [Num 3, Num 7, Num 4]"
  "batch_parts (utf16 ''a, -1, 0'') = []"
  "batch_input (utf16 ''a, -1, 0'') initial_state = initial_state"
  by code_simp+

text \<open>An entry of a one and \<open>n\<close> zeros.\<close>

lemma foldl_zeros:
  "foldl (\<lambda>a c. case radix_digit 10 c of None \<Rightarrow> a | Some v \<Rightarrow> a * 10 + v) a (replicate n 48)
   = a * 10 ^ n"
  by (induction n arbitrary: a) (simp_all add: radix_digit_def digit_val_def)

lemma utf16_one_zeros:
  "utf16 (CHR ''1'' # replicate n CHR ''0'') = 49 # replicate n 48"
  by (simp add: utf16_def)

lemma parseInt_one_zeros: "parseInt (49 # replicate n 48) = number_of_digits (10 ^ n)"
  using foldl_zeros[of 1 n]
  by (simp add: parseInt_def strip_sign_def is_space_def utf16_def is_digit_def radix_digit_def
      digit_val_def digits_value_def Let_def)

lemma trim_one_zeros: "trim (49 # replicate n 48) = 49 # replicate n 48"
proof -
  have "dropWhile is_space (replicate n 48 @ [49]) = replicate n 48 @ [49]"
    by (cases n) (simp_all add: is_space_def)
  then show ?thesis by (simp add: trim_def is_space_def)
qed

lemma split_one_zeros: "split 44 (49 # replicate n 48) = [49 # replicate n 48]"
proof -
  have "split 44 (replicate n 48) = [replicate n 48]" by (induction n) simp_all
  then show ?thesis by simp
qed

lemma number_of_digits_overflow: "number_of_digits (10 ^ 309) = PInf"
  by (simp add: number_of_digits_def)

text \<open>
  Claim C7. The claim holds for every entry but one kind. An entry whose digits overflow
  the range of the Numbers is kept: for the batch field holding a one followed by 309
  zeros, \<^verbatim>\<open>parseInt\<close> of the entry is \<^verbatim>\<open>Infinity\<close>, which is not \<open>NaN\<close> and is greater than
  0, so that the parsed list is \<^verbatim>\<open>[Infinity]\<close> and becomes the batch list. \<^verbatim>\<open>Infinity\<close> is
  not a positive integer, and in batch mode the generation on that list does not
  return: the loop over the holes of the block has no end.
\<close>

theorem batch_input_keeps_Infinity:
  "parseInt (trim (utf16 (CHR ''1'' # replicate 309 CHR ''0''))) = PInf \<and>
   \<not> positive_integer PInf \<and>
   batch_parts (utf16 (CHR ''1'' # replicate 309 CHR ''0'')) = [PInf] \<and>
   batchList (batch_input (utf16 (CHR ''1'' # replicate 309 CHR ''0''))
                (mode_change ''batch'' initial_state)) = [PInf] \<and>
   generateModel (batch_input (utf16 (CHR ''1'' # replicate 309 CHR ''0''))
                    (mode_change ''batch'' initial_state)) = None"
proof -
  let ?s = "utf16 (CHR ''1'' # replicate 309 CHR ''0'')"
  let ?st = "mode_change ''batch'' initial_state"
  have p: "parseInt (trim ?s) = PInf"
    by (simp only: utf16_one_zeros trim_one_zeros parseInt_one_zeros number_of_digits_overflow)
  have n: "\<not> positive_integer PInf" by (simp add: positive_integer_def)
  have "split (of_char CHR '','') ?s = [?s]"
    unfolding utf16_one_zeros using split_one_zeros[of 309] by simp
  then have b: "batch_parts ?s = [PInf]"
    by (simp add: batch_parts_def p isNaN_def js_gt_def)
  then have st: "batch_input ?s ?st = ?st\<lparr>batchList := [PInf]\<rparr>"
    by (simp add: batch_input_def Let_def)
  then have l: "batchList (batch_input ?s ?st) = [PInf]" by simp
  have "PInf \<in> set (blocksToMake (batch_input ?s ?st))"
    unfolding st by (simp add: blocksToMake_def mode_change_def initial_state_def)
  then have g: "generateModel (batch_input ?s ?st) = None" by (rule generateModel_PInf)
  from p n b l g show ?thesis by (intro conjI)
qed

section \<open>Generating twice\<close>

lemma generateModel_ignores_meshes:
  "generateModel (st\<lparr>currentMeshes := ms\<rparr>) = generateModel st"
  by (simp add: generateModel_def)

text \<open>
  Claim C8. The result of \<open>generateModel\<close> does not depend on the meshes on display when
  it starts: two states with the same parameters give the same result. When no entry to
  generate is \<^verbatim>\<open>Infinity\<close>, \<open>generateModel\<close> returns a state with the same parameters,
  and running it again on that state returns that same state: the same solids, with the
  same cutters in the same order.
\<close>

theorem generateModel_twice:
  "(\<forall>ms. generateModel (st\<lparr>currentMeshes := ms\<rparr>) = generateModel st) \<and>
   (PInf \<notin> set (blocksToMake st) \<longrightarrow>
      (\<exists>st'. generateModel st = Some st' \<and> generateModel st' = Some st' \<and>
         mode st' = mode st \<and> numHoles st' = numHoles st \<and> batchList st' = batchList st \<and>
         drillRadius st' = drillRadius st \<and> grooveDepth st' = grooveDepth st))"
proof (intro conjI allI impI)
  fix ms show "generateModel (st\<lparr>currentMeshes := ms\<rparr>) = generateModel st"
    by (rule generateModel_ignores_meshes)
next
  assume fin: "PInf \<notin> set (blocksToMake st)"
  let ?ms = "map (\<lambda>(i, h). mesh_of (drillRadius st) (grooveDepth st) h i)
               (enumerate 0 (blocksToMake st))"
  let ?st' = "st\<lparr>currentMeshes := ?ms\<rparr>"
  have first: "generateModel st = Some ?st'"
    using fin by (rule generateModel_eq)
  have "generateModel ?st' = generateModel st"
    by (rule generateModel_ignores_meshes)
  with first have "generateModel ?st' = Some ?st'" by simp
  with first show "\<exists>st'. generateModel st = Some st' \<and> generateModel st' = Some st' \<and>
         mode st' = mode st \<and> numHoles st' = numHoles st \<and> batchList st' = batchList st \<and>
         drillRadius st' = drillRadius st \<and> grooveDepth st' = grooveDepth st"
    by (intro exI[of _ ?st']) simp
qed

text \<open>The initial parameters: generating again, also from a display that holds the first
  result twice, gives the first result.\<close>

theorem generateModel_twice_initial:
  "PInf \<notin> set (blocksToMake initial_state) \<and>
   (\<exists>st'. generateModel initial_state = Some st' \<and> generateModel st' = Some st' \<and>
      generateModel (initial_state\<lparr>currentMeshes := currentMeshes st' @ currentMeshes st'\<rparr>) =
        Some st' \<and>
      length (currentMeshes st') = 1 \<and>
      mode st' = ''single'' \<and> numHoles st' = Num 5 \<and> drillRadius st' = Num 4 \<and>
      grooveDepth st' = Num (1 / 2))"
proof -
  have fin: "PInf \<notin> set (blocksToMake initial_state)"
    by (simp add: blocksToMake_def initial_state_def)
  note inst = generateModel_twice[of initial_state]
  from inst[THEN conjunct2, rule_format, OF fin] obtain st' where
    st': "generateModel initial_state = Some st'" "generateModel st' = Some st'"
    "mode st' = mode initial_state" "numHoles st' = numHoles initial_state"
    "drillRadius st' = drillRadius initial_state" "grooveDepth st' = grooveDepth initial_state"
    by blast
  have again: "generateModel (initial_state\<lparr>currentMeshes := currentMeshes st' @ currentMeshes st'\<rparr>) =
      Some st'"
    using inst[THEN conjunct1, rule_format, of "currentMeshes st' @ currentMeshes st'"] st'(1)
    by simp
  have "length (currentMeshes st') = 1"
    using generateModel_eq[OF fin] st'(1) by (auto simp add: blocksToMake_def initial_state_def)
  with st' again fin show ?thesis
    by (intro conjI exI[of _ st']) (simp_all add: initial_state_def)
qed

section \<open>Input that is not a number\<close>

lemma non_numeric_parseFloat: "non_numeric v \<Longrightarrow> parseFloat v = NaN"
  by (cases "strip_sign (dropWhile is_space v)"; cases "snd (strip_sign (dropWhile is_space v))")
    (auto simp add: non_numeric_def parseFloat_def utf16_def Let_def)

lemma non_numeric_parseInt: "non_numeric v \<Longrightarrow> parseInt v = NaN"
  by (cases "strip_sign (dropWhile is_space v)"; cases "snd (strip_sign (dropWhile is_space v))")
    (auto simp add: non_numeric_def parseInt_def utf16_def is_digit_def radix_digit_def
      digit_val_def Let_def)

lemma holes_input_fields:
  "mode (holes_input v st) = mode st" "batchList (holes_input v st) = batchList st"
  "drillRadius (holes_input v st) = drillRadius st"
  "grooveDepth (holes_input v st) = grooveDepth st"
  by (simp_all add: holes_input_def Let_def)

text \<open>
  \<open>first_evaluate\<close> names the operands that the run of \<open>generateModel\<close> uses: when the run
  returns, the first mesh has that box and that cylinder as its first cutter.
\<close>

lemma first_evaluate_generateModel:
  assumes "first_evaluate st = Some (b, c)" and "generateModel st = Some st'"
  shows "currentMeshes st' \<noteq> [] \<and>
         box (hd (currentMeshes st')) = box b \<and>
         box_position (hd (currentMeshes st')) = box_position b \<and>
         hd (subtracted (hd (currentMeshes st'))) = c"
proof -
  from assms(2) have fin: "PInf \<notin> set (blocksToMake st)"
    using generateModel_PInf[of st] by auto
  from assms(1) obtain holes rest where blocks: "blocksToMake st = holes # rest"
    by (cases "blocksToMake st") (simp_all add: first_evaluate_def)
  from generateModel_eq[OF fin] assms(2) blocks
  have "hd (currentMeshes st') = mesh_of (drillRadius st) (grooveDepth st) holes 0"
    and "currentMeshes st' \<noteq> []"
    by auto
  with assms(1) blocks show ?thesis
    by (auto simp add: first_evaluate_def mesh_of_def Let_def)
qed

text \<open>
  Claim C9. A string with no number at its start is parsed to \<open>NaN\<close> by \<^verbatim>\<open>parseFloat\<close>
  and by \<^verbatim>\<open>parseInt\<close>. When the radius field parses to \<open>NaN\<close>, the test \<open>val <= 0\<close> is
  false and \<open>drillRadius\<close> becomes \<open>NaN\<close>; the generation that follows goes on with it, and
  the first cutter it hands to the CSG library is a cylinder of radius \<open>NaN\<close>. When the
  holes field parses to \<open>NaN\<close>, the test \<open>val < 1\<close> is false and \<open>numHoles\<close> becomes \<open>NaN\<close>;
  in single mode the generation that follows hands to the CSG library a box of height
  \<open>NaN\<close> and a cylinder of height \<open>NaN\<close>.
\<close>

theorem nan_passes_the_clamps:
  "(non_numeric v \<longrightarrow> parseFloat v = NaN \<and> parseInt v = NaN) \<and>
   (parseFloat v = NaN \<longrightarrow>
      \<not> js_le (parseFloat v) (Num 0) \<and>
      drillRadius (radius_input v st) = NaN \<and>
      (blocksToMake st \<noteq> [] \<longrightarrow>
         (\<exists>b c. first_evaluate (radius_input v st) = Some (b, c) \<and>
                radiusTop (geometry c) = NaN \<and> radiusBottom (geometry c) = NaN))) \<and>
   (parseInt v = NaN \<longrightarrow>
      \<not> js_lt (parseInt v) (Num 1) \<and>
      numHoles (holes_input v st) = NaN \<and>
      (mode st = ''single'' \<longrightarrow>
         (\<exists>b c. first_evaluate (holes_input v st) = Some (b, c) \<and>
                box_height (box b) = NaN \<and> cyl_height (geometry c) = NaN)))"
proof (intro conjI impI)
  assume "non_numeric v"
  then show "parseFloat v = NaN" and "parseInt v = NaN"
    by (simp_all add: non_numeric_parseFloat non_numeric_parseInt)
next
  assume nan: "parseFloat v = NaN"
  then show "\<not> js_le (parseFloat v) (Num 0)" by simp
  from nan show r: "drillRadius (radius_input v st) = NaN"
    by (simp add: radius_input_def Let_def)
  assume "blocksToMake st \<noteq> []"
  then obtain holes rest where "blocksToMake (radius_input v st) = holes # rest"
    by (cases "blocksToMake st") (simp_all add: radius_input_fields)
  with r show "\<exists>b c. first_evaluate (radius_input v st) = Some (b, c) \<and>
      radiusTop (geometry c) = NaN \<and> radiusBottom (geometry c) = NaN"
    by (simp add: first_evaluate_def Let_def mk_brush_def)
next
  assume nan: "parseInt v = NaN"
  then show "\<not> js_lt (parseInt v) (Num 1)" by simp
  from nan show n: "numHoles (holes_input v st) = NaN"
    by (simp add: holes_input_def Let_def)
  assume single: "mode st = ''single''"
  have "blocksToMake (holes_input v st) = [NaN]"
    using single n by (simp add: blocksToMake_def holes_input_fields)
  then show "\<exists>b c. first_evaluate (holes_input v st) = Some (b, c) \<and>
      box_height (box b) = NaN \<and> cyl_height (geometry c) = NaN"
    by (simp add: first_evaluate_def Let_def mk_brush_def HEIGHT_PER_HOLE_def)
qed

text \<open>The string \<^verbatim>\<open>abc\<close> in either field, on the initial parameters.\<close>

theorem nan_passes_the_clamps_abc:
  "non_numeric (utf16 ''abc'') \<and> parseFloat (utf16 ''abc'') = NaN \<and>
   parseInt (utf16 ''abc'') = NaN \<and>
   blocksToMake initial_state \<noteq> [] \<and> mode initial_state = ''single'' \<and>
   \<not> js_le (parseFloat (utf16 ''abc'')) (Num 0) \<and>
   drillRadius (radius_input (utf16 ''abc'') initial_state) = NaN \<and>
   (\<exists>b c. first_evaluate (radius_input (utf16 ''abc'') initial_state) = Some (b, c) \<and>
          radiusTop (geometry c) = NaN \<and> radiusBottom (geometry c) = NaN) \<and>
   \<not> js_lt (parseInt (utf16 ''abc'')) (Num 1) \<and>
   numHoles (holes_input (utf16 ''abc'') initial_state) = NaN \<and>
   (\<exists>b c. first_evaluate (holes_input (utf16 ''abc'') initial_state) = Some (b, c) \<and>
          box_height (box b) = NaN \<and> cyl_height (geometry c) = NaN)"
proof -
  have nn: "non_numeric (utf16 ''abc'')" by code_simp
  have ne: "blocksToMake initial_state \<noteq> []"
    and single: "mode initial_state = ''single''"
    by (simp_all add: blocksToMake_def initial_state_def)
  note inst = nan_passes_the_clamps[of "utf16 ''abc''" initial_state]
  note parse = inst[THEN conjunct1, rule_format, OF nn]
  note radius = inst[THEN conjunct2, THEN conjunct1, rule_format, OF conjunct1[OF parse]]
  note holes = inst[THEN conjunct2, THEN conjunct2, rule_format, OF conjunct2[OF parse]]
  show ?thesis
    using nn conjunct1[OF parse] conjunct2[OF parse] ne single
      radius[THEN conjunct1] radius[THEN conjunct2, THEN conjunct1]
      radius[THEN conjunct2, THEN conjunct2, rule_format, OF ne]
      holes[THEN conjunct1] holes[THEN conjunct2, THEN conjunct1]
      holes[THEN conjunct2, THEN conjunct2, rule_format, OF single]
    apply (intro conjI)
    apply assumption+
    done
qed

section \<open>A negative groove depth\<close>

lemma js_lt_not_gt: "js_lt d (Num 0) \<Longrightarrow> \<not> js_gt d (Num 0)"
  by (cases d) (simp_all add: js_gt_def)

lemma level_cutters_no_grooves:
  "\<not> js_gt d (Num 0) \<Longrightarrow>
   level_cutters d g x bh sgo = level_cutters (Num 0) g x bh sgo'"
  by (rule ext) (simp add: level_cutters_def js_gt_def)

lemma mesh_of_no_grooves:
  assumes "\<not> js_gt d (Num 0)"
  shows "mesh_of r d h k = mesh_of r (Num 0) h k"
proof -
  have lv: "level_cutters d g x bh (js_add (js_sub (js_div BOX_WIDTH (Num 2)) d) r) =
      level_cutters (Num 0) g x bh (js_add (js_sub (js_div BOX_WIDTH (Num 2)) (Num 0)) r)"
    for g x bh
    using assms by (rule level_cutters_no_grooves)
  have tb: "top_bottom_cutters d g x (js_add (js_sub (js_div bh (Num 2)) d) r) =
      top_bottom_cutters (Num 0) g x (js_add (js_sub (js_div bh (Num 2)) (Num 0)) r)"
    for g x bh
    using assms by (simp add: top_bottom_cutters_def js_gt_def)
  show ?thesis
    by (simp only: mesh_of_def Let_def lv tb)
qed

lemma script_level_cutters_no_grooves:
  "d \<le> 0 \<Longrightarrow>
   script_level_cutters r d cx h go = script_level_cutters r 0 cx h go'"
  by (rule ext) (simp add: script_level_cutters_def)

lemma script_block_of_no_grooves:
  assumes "d \<le> 0"
  shows "script_block_of r d n cx = script_block_of r 0 n cx"
proof -
  have lv: "script_level_cutters r d cx h (10 - d + r) =
      script_level_cutters r 0 cx h (10 - 0 + r)" for h
    using assms by (rule script_level_cutters_no_grooves)
  have tb: "script_top_bottom_cutters r d cx h = script_top_bottom_cutters r 0 cx h" for h
    using assms by (simp add: script_top_bottom_cutters_def)
  show ?thesis
    by (simp only: script_block_of_def Let_def lv tb)
qed

lemma blocksToMake_grooveDepth:
  "blocksToMake (st\<lparr>grooveDepth := x\<rparr>) = blocksToMake st"
  by (simp add: blocksToMake_def)

text \<open>
  Claim C10. When \<open>grooveDepth\<close> is less than 0, \<open>generateModel\<close> subtracts no side-groove
  and no top or bottom groove cylinder from any block, and its solids are those it
  builds with depth 0. For a finite radius and a finite negative depth the script builds
  no groove cylinder either, and its blocks are those of the script emitted with depth 0.
\<close>

theorem negative_depth_cuts_no_groove:
  assumes "js_lt (grooveDepth st) (Num 0)"
    and "blocksToMake st = map (\<lambda>n. Num (of_nat n)) ns"
  shows "(\<exists>ms. generateModel st = Some (st\<lparr>currentMeshes := ms\<rparr>) \<and> length ms = length ns \<and>
            (\<forall>k < length ns.
               count_family SideGroove (subtracted (ms ! k)) = 0 \<and>
               count_family TopBottomGroove (subtracted (ms ! k)) = 0) \<and>
            generateModel (st\<lparr>grooveDepth := Num 0\<rparr>) =
              Some (st\<lparr>grooveDepth := Num 0, currentMeshes := ms\<rparr>)) \<and>
         (\<forall>r d. drillRadius st = Num r \<and> grooveDepth st = Num d \<longrightarrow>
            (\<exists>bs. main (downloadRhinoScript st) = Inr bs \<and> length bs = length ns \<and>
               (\<forall>k < length ns.
                  count_script_family SideGroove (cutters (bs ! k)) = 0 \<and>
                  count_script_family TopBottomGroove (cutters (bs ! k)) = 0) \<and>
               main (downloadRhinoScript (st\<lparr>grooveDepth := Num 0\<rparr>)) = Inr bs))"
proof (intro conjI allI impI)
  let ?d = "grooveDepth st" and ?r = "drillRadius st"
  let ?st0 = "st\<lparr>grooveDepth := Num 0\<rparr>"
  let ?ms = "map (\<lambda>(i, n). mesh_of ?r ?d (Num (of_nat n)) i) (enumerate 0 ns)"
  have off: "\<not> js_gt ?d (Num 0)" using assms(1) by (rule js_lt_not_gt)
  have "generateModel st = Some (st\<lparr>currentMeshes := ?ms\<rparr>)"
    using assms(2) by (rule generateModel_counts)
  moreover have "length ?ms = length ns" by simp
  moreover have "\<forall>k < length ns.
      count_family SideGroove (subtracted (?ms ! k)) = 0 \<and>
      count_family TopBottomGroove (subtracted (?ms ! k)) = 0"
  proof (intro allI impI)
    fix k assume k: "k < length ns"
    show "count_family SideGroove (subtracted (?ms ! k)) = 0 \<and>
      count_family TopBottomGroove (subtracted (?ms ! k)) = 0"
      unfolding nth_meshes[OF k] using off by (simp add: count_mesh_of)
  qed
  moreover have "generateModel ?st0 = Some (?st0\<lparr>currentMeshes := ?ms\<rparr>)"
  proof -
    have "blocksToMake ?st0 = map (\<lambda>n. Num (of_nat n)) ns"
      using assms(2) by (simp add: blocksToMake_grooveDepth)
    then have "generateModel ?st0 = Some (?st0\<lparr>currentMeshes :=
        map (\<lambda>(i, n). mesh_of ?r (Num 0) (Num (of_nat n)) i) (enumerate 0 ns)\<rparr>)"
      using generateModel_counts[of ?st0 ns] by simp
    then show ?thesis by (simp add: mesh_of_no_grooves[OF off])
  qed
  ultimately show "\<exists>ms. generateModel st = Some (st\<lparr>currentMeshes := ms\<rparr>) \<and>
      length ms = length ns \<and>
      (\<forall>k < length ns.
         count_family SideGroove (subtracted (ms ! k)) = 0 \<and>
         count_family TopBottomGroove (subtracted (ms ! k)) = 0) \<and>
      generateModel ?st0 = Some (st\<lparr>grooveDepth := Num 0, currentMeshes := ms\<rparr>)"
    by blast
next
  fix r d
  assume fin: "drillRadius st = Num r \<and> grooveDepth st = Num d"
  then have d: "d < 0" using assms(1) by simp
  let ?st0 = "st\<lparr>grooveDepth := Num 0\<rparr>"
  let ?bs = "map (\<lambda>(i, n). script_block_of r d n (of_nat i * 40)) (enumerate 0 ns)"
  have "main (downloadRhinoScript st) = Inr ?bs"
    using assms(2) fin by (simp add: main_eq)
  moreover have "length ?bs = length ns" by simp
  moreover have "\<forall>k < length ns.
      count_script_family SideGroove (cutters (?bs ! k)) = 0 \<and>
      count_script_family TopBottomGroove (cutters (?bs ! k)) = 0"
  proof (intro allI impI)
    fix k assume k: "k < length ns"
    show "count_script_family SideGroove (cutters (?bs ! k)) = 0 \<and>
      count_script_family TopBottomGroove (cutters (?bs ! k)) = 0"
      unfolding nth_blocks[OF k] using d by (simp add: count_script_block_of)
  qed
  moreover have "main (downloadRhinoScript ?st0) = Inr ?bs"
  proof -
    have "blocksToMake ?st0 = map (\<lambda>n. Num (of_nat n)) ns" "drillRadius ?st0 = Num r"
      "grooveDepth ?st0 = Num 0"
      using assms(2) fin by (simp_all add: blocksToMake_grooveDepth)
    then have "main (downloadRhinoScript ?st0) =
        Inr (map (\<lambda>(i, n). script_block_of r 0 n (of_nat i * 40)) (enumerate 0 ns))"
      by (rule main_eq)
    moreover have "script_block_of r d n cx = script_block_of r 0 n cx" for n cx
      using d by (intro script_block_of_no_grooves) simp
    ultimately show ?thesis by simp
  qed
  ultimately show "\<exists>bs. main (downloadRhinoScript st) = Inr bs \<and> length bs = length ns \<and>
      (\<forall>k < length ns.
         count_script_family SideGroove (cutters (bs ! k)) = 0 \<and>
         count_script_family TopBottomGroove (cutters (bs ! k)) = 0) \<and>
      main (downloadRhinoScript ?st0) = Inr bs"
    by blast
qed

text \<open>The depth field set to \<^verbatim>\<open>-2\<close> on the initial parameters.\<close>

theorem negative_depth_cuts_no_groove_minus_2:
  "js_lt (grooveDepth (depth_input (utf16 ''-2'') initial_state)) (Num 0) \<and>
   blocksToMake (depth_input (utf16 ''-2'') initial_state) = map (\<lambda>n. Num (of_nat n)) [5] \<and>
   drillRadius (depth_input (utf16 ''-2'') initial_state) = Num 4 \<and>
   grooveDepth (depth_input (utf16 ''-2'') initial_state) = Num (- 2) \<and>
   (\<exists>m. generateModel (depth_input (utf16 ''-2'') initial_state) =
          Some ((depth_input (utf16 ''-2'') initial_state)\<lparr>currentMeshes := [m]\<rparr>) \<and>
        count_family SideGroove (subtracted m) = 0 \<and>
        count_family TopBottomGroove (subtracted m) = 0 \<and>
        generateModel ((depth_input (utf16 ''-2'') initial_state)\<lparr>grooveDepth := Num 0\<rparr>) =
          Some ((depth_input (utf16 ''-2'') initial_state)\<lparr>grooveDepth := Num 0, currentMeshes := [m]\<rparr>)) \<and>
   (\<exists>b. main (downloadRhinoScript (depth_input (utf16 ''-2'') initial_state)) = Inr [b] \<and>
        count_script_family SideGroove (cutters b) = 0 \<and>
        count_script_family TopBottomGroove (cutters b) = 0 \<and>
        main (downloadRhinoScript ((depth_input (utf16 ''-2'') initial_state)\<lparr>grooveDepth := Num 0\<rparr>)) =
          Inr [b])"
proof -
  let ?st = "depth_input (utf16 ''-2'') initial_state"
  have p: "parseFloat (utf16 ''-2'') = Num (- 2)" by code_simp
  have d: "grooveDepth ?st = Num (- 2)" and r: "drillRadius ?st = Num 4"
    and blocks: "blocksToMake ?st = map (\<lambda>n. Num (of_nat n)) [5]"
    by (simp_all add: depth_input_def Let_def p initial_state_def blocksToMake_def)
  have neg: "js_lt (grooveDepth ?st) (Num 0)" by (simp add: d)
  note inst = negative_depth_cuts_no_groove[OF neg blocks]
  from inst[THEN conjunct1] obtain ms where
    gen: "generateModel ?st = Some (?st\<lparr>currentMeshes := ms\<rparr>)" and len: "length ms = 1"
    and none: "count_family SideGroove (subtracted (ms ! 0)) = 0"
      "count_family TopBottomGroove (subtracted (ms ! 0)) = 0"
    and same: "generateModel (?st\<lparr>grooveDepth := Num 0\<rparr>) =
      Some (?st\<lparr>grooveDepth := Num 0, currentMeshes := ms\<rparr>)"
    by auto
  from len obtain m where m: "ms = [m]" by (cases ms) auto
  from inst[THEN conjunct2, rule_format, OF conjI[OF r d]] obtain bs where
    scr: "main (downloadRhinoScript ?st) = Inr bs" and slen: "length bs = 1"
    and snone: "count_script_family SideGroove (cutters (bs ! 0)) = 0"
      "count_script_family TopBottomGroove (cutters (bs ! 0)) = 0"
    and ssame: "main (downloadRhinoScript (?st\<lparr>grooveDepth := Num 0\<rparr>)) = Inr bs"
    by auto
  from slen obtain b where b: "bs = [b]" by (cases bs) auto
  show ?thesis
    using neg blocks r d gen none same scr snone ssame unfolding m b
    by (intro conjI) auto
qed

end
